theory Spec2Isabelle
  imports Complex_Main "HOL-Library.Sublist"
begin

section \<open>JavaScript numbers\<close>

text \<open>
  Every number of the analysis service is a JavaScript Number. A finite Number is
  modelled as a real, and the three values that a division by zero produces are kept
  apart from the finite ones, so that no division of the model silently returns 0
  where the program returns \<open>NaN\<close> or an infinity. Signed zeros are not distinguished.
  The operations of this section are exact on finite values; the rounding of the
  program's binary64 arithmetic is the subject of the section on binary64 below.
\<close>

datatype jsnum = Fin real | PosInf | NegInf | NaN

fun js_neg :: "jsnum \<Rightarrow> jsnum" where
  "js_neg (Fin a) = Fin (- a)"
| "js_neg PosInf = NegInf"
| "js_neg NegInf = PosInf"
| "js_neg NaN = NaN"

fun js_add :: "jsnum \<Rightarrow> jsnum \<Rightarrow> jsnum" where
  "js_add (Fin a) (Fin b) = Fin (a + b)"
| "js_add NaN y = NaN"
| "js_add x NaN = NaN"
| "js_add PosInf NegInf = NaN"
| "js_add NegInf PosInf = NaN"
| "js_add PosInf y = PosInf"
| "js_add x PosInf = PosInf"
| "js_add NegInf y = NegInf"
| "js_add x NegInf = NegInf"

definition js_sub :: "jsnum \<Rightarrow> jsnum \<Rightarrow> jsnum" where
  "js_sub x y = js_add x (js_neg y)"

text \<open>The sign of a number that is not \<open>NaN\<close>: \<open>True\<close> for the non-negative ones.\<close>

fun js_nonneg :: "jsnum \<Rightarrow> bool" where
  "js_nonneg (Fin a) = (0 \<le> a)"
| "js_nonneg PosInf = True"
| "js_nonneg NegInf = False"
| "js_nonneg NaN = False"

fun js_mul :: "jsnum \<Rightarrow> jsnum \<Rightarrow> jsnum" where
  "js_mul (Fin a) (Fin b) = Fin (a * b)"
| "js_mul NaN y = NaN"
| "js_mul x NaN = NaN"
| "js_mul x y =
     (if x = Fin 0 \<or> y = Fin 0 then NaN
      else if js_nonneg x = js_nonneg y then PosInf else NegInf)"

fun js_div :: "jsnum \<Rightarrow> jsnum \<Rightarrow> jsnum" where
  "js_div (Fin a) (Fin b) =
     (if b \<noteq> 0 then Fin (a / b)
      else if a = 0 then NaN
      else if 0 < a then PosInf else NegInf)"
| "js_div NaN y = NaN"
| "js_div x NaN = NaN"
| "js_div (Fin a) y = Fin 0"
| "js_div x (Fin b) = (if 0 \<le> b then x else js_neg x)"
| "js_div x y = NaN"

text \<open>The operator \<open><\<close>: false as soon as one side is \<open>NaN\<close>.\<close>

fun js_less :: "jsnum \<Rightarrow> jsnum \<Rightarrow> bool" where
  "js_less (Fin a) (Fin b) = (a < b)"
| "js_less NaN y = False"
| "js_less x NaN = False"
| "js_less x NegInf = False"
| "js_less PosInf y = False"
| "js_less NegInf y = True"
| "js_less x PosInf = True"

text \<open>\<open>Math.min\<close> and \<open>Math.max\<close> of two arguments: \<open>NaN\<close> if either is.\<close>

definition js_min :: "jsnum \<Rightarrow> jsnum \<Rightarrow> jsnum" where
  "js_min x y = (if x = NaN \<or> y = NaN then NaN else if js_less y x then y else x)"

definition js_max :: "jsnum \<Rightarrow> jsnum \<Rightarrow> jsnum" where
  "js_max x y = (if x = NaN \<or> y = NaN then NaN else if js_less x y then y else x)"

text \<open>The operator \<open>===\<close> on numbers: \<open>NaN\<close> is not equal to itself.\<close>

definition js_strict_eq :: "jsnum \<Rightarrow> jsnum \<Rightarrow> bool" where
  "js_strict_eq x y = (x \<noteq> NaN \<and> x = y)"

text \<open>\<open>Math.pow\<close> with a whole, non-negative exponent.\<close>

fun js_pow :: "jsnum \<Rightarrow> nat \<Rightarrow> jsnum" where
  "js_pow x 0 = Fin 1"
| "js_pow (Fin a) n = Fin (a ^ n)"
| "js_pow NaN n = NaN"
| "js_pow PosInf n = PosInf"
| "js_pow NegInf n = (if even n then PosInf else NegInf)"


text \<open>Truthiness of a number, as \<open>||\<close> and \<open>?:\<close> test it: \<open>0\<close> and \<open>NaN\<close> are falsy.\<close>

definition js_truthy :: "jsnum \<Rightarrow> bool" where
  "js_truthy x = (x \<noteq> Fin 0 \<and> x \<noteq> NaN)"

text \<open>\<open>v || d\<close> for a finite number \<open>v\<close>.\<close>

definition or_default :: "real \<Rightarrow> real \<Rightarrow> real" where
  "or_default v d = (if js_truthy (Fin v) then v else d)"

definition MAX_SAFE_INTEGER :: real where
  "MAX_SAFE_INTEGER = 9007199254740991"

section \<open>Strings and arrays\<close>

fun starts_with :: "string \<Rightarrow> string \<Rightarrow> bool" where
  "starts_with s [] = True"
| "starts_with [] (c # cs) = False"
| "starts_with (x # xs) (c # cs) = (x = c \<and> starts_with xs cs)"

text \<open>\<open>s.includes(sub)\<close>: \<open>sub\<close> occurs in \<open>s\<close> as a contiguous run.\<close>

fun js_includes :: "string \<Rightarrow> string \<Rightarrow> bool" where
  "js_includes [] sub = (sub = [])"
| "js_includes (x # xs) sub = (starts_with (x # xs) sub \<or> js_includes xs sub)"

text \<open>
  \<open>Array.prototype.sort\<close> with a comparator \<open>cmp\<close>: \<open>a\<close> goes after \<open>b\<close> when
  \<open>cmp a b > 0\<close>; a result of \<open>0\<close> or \<open>NaN\<close> keeps the two in their order (the sort
  is stable). It is written as an insertion sort. For a comparator that is not a
  consistent ordering the language leaves the order to the implementation; the model
  then gives the order of this insertion sort.
\<close>

fun js_insert :: "('a \<Rightarrow> 'a \<Rightarrow> jsnum) \<Rightarrow> 'a \<Rightarrow> 'a list \<Rightarrow> 'a list" where
  "js_insert cmp x [] = [x]"
| "js_insert cmp x (y # ys) =
     (if js_less (Fin 0) (cmp x y) then y # js_insert cmp x ys else x # y # ys)"

definition js_sort :: "('a \<Rightarrow> 'a \<Rightarrow> jsnum) \<Rightarrow> 'a list \<Rightarrow> 'a list" where
  "js_sort cmp xs = foldr (js_insert cmp) xs []"

section \<open>The stored documents (backend/src/models)\<close>

text \<open>
  The three collections the service reads. A path without a default in its schema may
  be missing from a stored document and is an \<open>option\<close>; a path with a default is
  always there. Paths the service never reads (descriptions, time stamps, contact
  data) are left out. \<open>product_id\<close> is the document's \<open>_id\<close>, and \<open>institution\<close> is what
  \<open>populate('institution')\<close> puts in place of the reference: the institution, or
  \<open>null\<close> (\<open>None\<close>) when the collection has no document for it.
\<close>

record Institution =
  inst_name :: string

record LoanProduct =
  product_id :: nat
  institution :: "Institution option"
  name :: string
  type :: string
  minAmount :: real
  maxAmount :: "real option"
  minTerm :: nat
  maxTerm :: "nat option"
  baseRate :: real
  minCreditScore :: "real option"
  perks :: "string list"
  active :: bool

record CreditScoreRange =
  range_min :: "real option"
  range_max :: "real option"

record InterestRate =
  loanProduct :: nat
  date :: int
  rate :: real
  termLength :: nat
  creditScoreRange :: CreditScoreRange

section \<open>Queries\<close>

text \<open>
  A collection is the list of its documents, and \<open>find\<close> returns the matching ones in
  that order. The comparison operators of a query document: a comparison with a
  number selects only documents that have the path, so a document without it never
  matches.
\<close>

fun q_lte :: "real option \<Rightarrow> real \<Rightarrow> bool" where
  "q_lte None v = False"
| "q_lte (Some x) v = (x \<le> v)"

fun q_lt :: "real option \<Rightarrow> real \<Rightarrow> bool" where
  "q_lt None v = False"
| "q_lt (Some x) v = (x < v)"

fun q_gte :: "real option \<Rightarrow> real \<Rightarrow> bool" where
  "q_gte None v = False"
| "q_gte (Some x) v = (v \<le> x)"

text \<open>
  \<open>findOne(q).sort({date: -1})\<close>: of the documents that match, the one with the
  greatest date. Among equal dates the database is free to choose; the model takes the
  first in collection order.
\<close>

fun latest_by_date :: "InterestRate list \<Rightarrow> InterestRate option" where
  "latest_by_date [] = None"
| "latest_by_date (x # xs) =
     (case latest_by_date xs of
        None \<Rightarrow> Some x
      | Some y \<Rightarrow> if date x < date y then Some y else Some x)"

subsection \<open>Rate tracker: getLatestRate\<close>

text \<open>
  \<open>getLatestRate(loanProductId, creditScore = 720)\<close> over the collection \<open>rates\<close>.
  The second argument is \<open>None\<close> when the caller leaves it out.
\<close>

definition getLatestRate :: "InterestRate list \<Rightarrow> nat \<Rightarrow> real option \<Rightarrow> InterestRate option" where
  "getLatestRate rates loanProductId creditScoreArg =
     (let creditScore = (case creditScoreArg of None \<Rightarrow> 720 | Some s \<Rightarrow> s)
      in latest_by_date
           (filter (\<lambda>r. loanProduct r = loanProductId
                       \<and> q_lte (range_min (creditScoreRange r)) creditScore
                       \<and> q_gte (range_max (creditScoreRange r)) creditScore) rates))"

subsection \<open>getEligibleProducts\<close>

definition eligible :: "string \<Rightarrow> real \<Rightarrow> nat \<Rightarrow> real \<Rightarrow> LoanProduct \<Rightarrow> bool" where
  "eligible loanType amount termMonths creditScore p =
     (type p = loanType
      \<and> q_lte (Some (minAmount p)) amount
      \<and> q_gte (maxAmount p) (or_default amount MAX_SAFE_INTEGER)
      \<and> q_lte (Some (real (minTerm p))) (real termMonths)
      \<and> q_gte (map_option real (maxTerm p)) (or_default (real termMonths) MAX_SAFE_INTEGER)
      \<and> q_lte (minCreditScore p) creditScore
      \<and> active p)"

definition getEligibleProducts ::
  "LoanProduct list \<Rightarrow> string \<Rightarrow> real \<Rightarrow> nat \<Rightarrow> real \<Rightarrow> LoanProduct list" where
  "getEligibleProducts catalog loanType amount termMonths creditScore =
     filter (eligible loanType amount termMonths creditScore) catalog"


section \<open>The analysis service (backend/src/services/ai-analysis)\<close>

subsection \<open>Helper methods\<close>

text \<open>
  \<open>product.fees\<close>: the schema of LoanProduct declares no path \<open>fees\<close>, and a document
  exposes the paths of its schema only, so the read yields \<open>undefined\<close> (\<open>None\<close>).
\<close>

definition fees :: "LoanProduct \<Rightarrow> jsnum option" where
  "fees product = None"

definition calculateAPR :: "jsnum \<Rightarrow> LoanProduct \<Rightarrow> jsnum" where
  "calculateAPR interestRate product =
     js_add interestRate
       (case fees product of
          None \<Rightarrow> Fin 0
        | Some f \<Rightarrow> if js_truthy f then Fin 0.5 else Fin 0)"

definition assessFlexibility :: "LoanProduct \<Rightarrow> jsnum" where
  "assessFlexibility product =
     (let score = Fin 0.5;
          score = (if list_ex (\<lambda>perk. js_includes perk ''No prepayment'') (perks product)
                   then js_add score (Fin 0.2) else score);
          score = (if list_ex (\<lambda>perk. js_includes perk ''payment options'') (perks product)
                   then js_add score (Fin 0.2) else score)
      in js_min score (Fin 1))"

text \<open>\<open>random\<close> is the value that this call of \<open>Math.random()\<close> returns.\<close>

definition assessCustomerService :: "Institution option \<Rightarrow> real \<Rightarrow> jsnum" where
  "assessCustomerService inst random = js_add (Fin 0.6) (js_mul (Fin random) (Fin 0.35))"

text \<open>A missing bound of the range reads as \<open>undefined\<close>, which arithmetic turns into \<open>NaN\<close>.\<close>

definition bound_num :: "real option \<Rightarrow> jsnum" where
  "bound_num b = (case b of None \<Rightarrow> NaN | Some x \<Rightarrow> Fin x)"

definition assessApprovalLikelihood :: "LoanProduct \<Rightarrow> CreditScoreRange \<Rightarrow> jsnum" where
  "assessApprovalLikelihood product csRange =
     js_min (Fin 1)
       (js_div (js_sub (bound_num (range_max csRange)) (bound_num (range_min csRange)))
          (Fin 200))"

definition normalize :: "jsnum \<Rightarrow> jsnum \<Rightarrow> jsnum \<Rightarrow> jsnum" where
  "normalize v lo hi =
     (if js_strict_eq lo hi then Fin 0.5 else js_div (js_sub v lo) (js_sub hi lo))"

subsection \<open>calculateMetrics\<close>

record AnalyzedProduct =
  product :: LoanProduct
  interestRate :: jsnum
  monthlyPayment :: jsnum
  totalPayment :: jsnum
  totalInterest :: jsnum
  apr :: jsnum
  flexibility :: jsnum
  customerService :: jsnum
  approvalLikelihood :: jsnum

text \<open>
  The amortization lines of the loop body (lines 90 to 96), in exact arithmetic;
  \<open>monthlyPayment64\<close> and \<open>totalPayment64\<close> below give them with the rounding of the
  program.
\<close>

definition monthlyRate :: "real \<Rightarrow> jsnum" where
  "monthlyRate annualRate = js_div (js_div (Fin annualRate) (Fin 100)) (Fin 12)"

definition monthlyPaymentOf :: "real \<Rightarrow> real \<Rightarrow> nat \<Rightarrow> jsnum" where
  "monthlyPaymentOf amount annualRate termMonths =
     js_div
       (js_mul (js_mul (Fin amount) (monthlyRate annualRate))
          (js_pow (js_add (Fin 1) (monthlyRate annualRate)) termMonths))
       (js_sub (js_pow (js_add (Fin 1) (monthlyRate annualRate)) termMonths) (Fin 1))"

definition totalPaymentOf :: "real \<Rightarrow> real \<Rightarrow> nat \<Rightarrow> jsnum" where
  "totalPaymentOf amount annualRate termMonths =
     js_mul (monthlyPaymentOf amount annualRate termMonths) (Fin (real termMonths))"

definition totalInterestOf :: "real \<Rightarrow> real \<Rightarrow> nat \<Rightarrow> jsnum" where
  "totalInterestOf amount annualRate termMonths =
     js_sub (totalPaymentOf amount annualRate termMonths) (Fin amount)"

definition analyzeProduct ::
  "LoanProduct \<Rightarrow> InterestRate \<Rightarrow> real \<Rightarrow> real \<Rightarrow> nat \<Rightarrow> AnalyzedProduct" where
  "analyzeProduct p rateInfo random amount termMonths =
     \<lparr> product = p,
       interestRate = Fin (rate rateInfo),
       monthlyPayment = monthlyPaymentOf amount (rate rateInfo) termMonths,
       totalPayment = totalPaymentOf amount (rate rateInfo) termMonths,
       totalInterest = totalInterestOf amount (rate rateInfo) termMonths,
       apr = calculateAPR (Fin (rate rateInfo)) p,
       flexibility = assessFlexibility p,
       customerService = assessCustomerService (institution p) random,
       approvalLikelihood = assessApprovalLikelihood p (creditScoreRange rateInfo) \<rparr>"

text \<open>
  The loop of \<open>calculateMetrics(products, amount, term)\<close> over the rate collection
  \<open>rates\<close>. \<open>rnd k\<close> is the result of the \<open>k\<close>-th call of \<open>Math.random()\<close>, and \<open>k\<close>
  counts the calls made so far. The rate is looked up with the product's id alone.
\<close>

fun calculateMetricsFrom ::
  "InterestRate list \<Rightarrow> (nat \<Rightarrow> real) \<Rightarrow> nat \<Rightarrow> LoanProduct list \<Rightarrow> real \<Rightarrow> nat
     \<Rightarrow> AnalyzedProduct list" where
  "calculateMetricsFrom rates rnd k [] amount termMonths = []"
| "calculateMetricsFrom rates rnd k (p # products) amount termMonths =
     (case getLatestRate rates (product_id p) None of
        None \<Rightarrow> calculateMetricsFrom rates rnd k products amount termMonths
      | Some rateInfo \<Rightarrow>
          analyzeProduct p rateInfo (rnd k) amount termMonths
            # calculateMetricsFrom rates rnd (Suc k) products amount termMonths)"

definition calculateMetrics ::
  "InterestRate list \<Rightarrow> (nat \<Rightarrow> real) \<Rightarrow> LoanProduct list \<Rightarrow> real \<Rightarrow> nat
     \<Rightarrow> AnalyzedProduct list" where
  "calculateMetrics rates rnd products amount termMonths =
     calculateMetricsFrom rates rnd 0 products amount termMonths"

subsection \<open>rankProducts\<close>

record Preferences =
  prioritizeRate :: bool
  prioritizePayment :: bool
  prioritizeService :: bool
  prioritizeFlexibility :: bool
  prioritizeApproval :: bool

text \<open>
  The weights are sums and quotients of the literals, and the divisor is at least 0.9
  (lemma \<open>totalWeight_pos\<close>), so they are finite and are kept as reals, in exact
  arithmetic; \<open>normalizedWeights64\<close> below gives them with the rounding of the program.
\<close>

record Weights =
  w_interestRate :: real
  w_monthlyPayment :: real
  w_customerService :: real
  w_flexibility :: real
  w_approvalLikelihood :: real

definition initialWeights :: "Preferences \<Rightarrow> Weights" where
  "initialWeights preferences =
     \<lparr> w_interestRate = (if prioritizeRate preferences then 0.4 else 0.3),
       w_monthlyPayment = (if prioritizePayment preferences then 0.4 else 0.2),
       w_customerService = (if prioritizeService preferences then 0.3 else 0.1),
       w_flexibility = (if prioritizeFlexibility preferences then 0.3 else 0.1),
       w_approvalLikelihood = (if prioritizeApproval preferences then 0.3 else 0.2) \<rparr>"

definition weightValues :: "Weights \<Rightarrow> real list" where
  "weightValues w =
     [w_interestRate w, w_monthlyPayment w, w_customerService w, w_flexibility w,
      w_approvalLikelihood w]"

definition totalWeight :: "Weights \<Rightarrow> real" where
  "totalWeight w = foldl (\<lambda>sum x. sum + x) 0 (weightValues w)"

definition normalizedWeights :: "Preferences \<Rightarrow> Weights" where
  "normalizedWeights preferences =
     (let w = initialWeights preferences; t = totalWeight w
      in \<lparr> w_interestRate = w_interestRate w / t,
           w_monthlyPayment = w_monthlyPayment w / t,
           w_customerService = w_customerService w / t,
           w_flexibility = w_flexibility w / t,
           w_approvalLikelihood = w_approvalLikelihood w / t \<rparr>)"

record Range =
  lo :: jsnum
  hi :: jsnum

record Ranges =
  r_interestRate :: Range
  r_monthlyPayment :: Range
  r_totalInterest :: Range
  r_apr :: Range

definition emptyRange :: Range where
  "emptyRange = \<lparr> lo = PosInf, hi = NegInf \<rparr>"

definition initialRanges :: Ranges where
  "initialRanges =
     \<lparr> r_interestRate = emptyRange, r_monthlyPayment = emptyRange,
       r_totalInterest = emptyRange, r_apr = emptyRange \<rparr>"

definition widen :: "Range \<Rightarrow> jsnum \<Rightarrow> Range" where
  "widen r v = \<lparr> lo = js_min (lo r) v, hi = js_max (hi r) v \<rparr>"

definition widenRanges :: "Ranges \<Rightarrow> AnalyzedProduct \<Rightarrow> Ranges" where
  "widenRanges rs p =
     \<lparr> r_interestRate = widen (r_interestRate rs) (interestRate p),
       r_monthlyPayment = widen (r_monthlyPayment rs) (monthlyPayment p),
       r_totalInterest = widen (r_totalInterest rs) (totalInterest p),
       r_apr = widen (r_apr rs) (apr p) \<rparr>"

definition findRanges :: "AnalyzedProduct list \<Rightarrow> Ranges" where
  "findRanges analyzedProducts = foldl widenRanges initialRanges analyzedProducts"

record Scores =
  s_interestRate :: jsnum
  s_monthlyPayment :: jsnum
  s_customerService :: jsnum
  s_flexibility :: jsnum
  s_approvalLikelihood :: jsnum

record ScoredProduct = AnalyzedProduct +
  scores :: Scores
  totalScore :: jsnum

definition scoresOf :: "Ranges \<Rightarrow> AnalyzedProduct \<Rightarrow> Scores" where
  "scoresOf ranges p =
     \<lparr> s_interestRate =
         js_sub (Fin 1)
           (normalize (interestRate p) (lo (r_interestRate ranges)) (hi (r_interestRate ranges))),
       s_monthlyPayment =
         js_sub (Fin 1)
           (normalize (monthlyPayment p) (lo (r_monthlyPayment ranges))
              (hi (r_monthlyPayment ranges))),
       s_customerService = customerService p,
       s_flexibility = flexibility p,
       s_approvalLikelihood = approvalLikelihood p \<rparr>"

text \<open>The five terms \<open>scores[key] * weights[key]\<close>, in the order of the keys.\<close>

definition contributions :: "Weights \<Rightarrow> Scores \<Rightarrow> jsnum list" where
  "contributions w s =
     [js_mul (s_interestRate s) (Fin (w_interestRate w)),
      js_mul (s_monthlyPayment s) (Fin (w_monthlyPayment w)),
      js_mul (s_customerService s) (Fin (w_customerService w)),
      js_mul (s_flexibility s) (Fin (w_flexibility w)),
      js_mul (s_approvalLikelihood s) (Fin (w_approvalLikelihood w))]"

definition weightedTotal :: "Weights \<Rightarrow> Scores \<Rightarrow> jsnum" where
  "weightedTotal w s = foldl js_add (Fin 0) (contributions w s)"

definition scoreProduct :: "Weights \<Rightarrow> Ranges \<Rightarrow> AnalyzedProduct \<Rightarrow> ScoredProduct" where
  "scoreProduct w ranges p =
     AnalyzedProduct.extend p
       (ScoredProduct.fields (scoresOf ranges p) (weightedTotal w (scoresOf ranges p)))"

definition byTotalScoreDesc :: "ScoredProduct \<Rightarrow> ScoredProduct \<Rightarrow> jsnum" where
  "byTotalScoreDesc a b = js_sub (totalScore b) (totalScore a)"

definition rankProducts :: "AnalyzedProduct list \<Rightarrow> Preferences \<Rightarrow> ScoredProduct list" where
  "rankProducts analyzedProducts preferences =
     (let weights = normalizedWeights preferences;
          ranges = findRanges analyzedProducts;
          scoredProducts = map (scoreProduct weights ranges) analyzedProducts
      in js_sort byTotalScoreDesc scoredProducts)"


subsection \<open>Recommendations, insights, educational content\<close>

text \<open>
  A \<open>TypeError\<close> is what reading a property of \<open>null\<close> or \<open>undefined\<close> throws; a function
  that can throw returns a sum, with the error on the left.
\<close>

datatype js_error = TypeError

definition first :: "'a list \<Rightarrow> 'a option" where
  "first xs = (case xs of [] \<Rightarrow> None | x # rest \<Rightarrow> Some x)"

text \<open>
  The recommendation text is modelled by its sentences, each with the institution and
  the product it names; the rendering of the numbers is left out. The three
  recommended objects are elements of \<open>rankedProducts\<close>, and \<open>!==\<close> compares them as
  objects: the model carries the position in \<open>rankedProducts\<close> with each element of a
  sorted copy and compares positions.
\<close>

datatype Sentence =
  NoSuitableOptions
| Recommend string string
| LowestRateAlternative string string
| LowestPaymentAlternative string string

record Recommendations =
  bestOverall :: "ScoredProduct option"
  lowestRate :: "ScoredProduct option"
  lowestPayment :: "ScoredProduct option"
  text_sentences :: "Sentence list"

fun positionedFrom :: "nat \<Rightarrow> 'a list \<Rightarrow> (nat \<times> 'a) list" where
  "positionedFrom i [] = []"
| "positionedFrom i (x # xs) = (i, x) # positionedFrom (Suc i) xs"

text \<open>\<open>rankedProducts.slice().sort((a, b) => a.metric - b.metric)[0]\<close>, with its position.\<close>

definition lowestBy ::
  "(ScoredProduct \<Rightarrow> jsnum) \<Rightarrow> ScoredProduct list \<Rightarrow> (nat \<times> ScoredProduct) option" where
  "lowestBy metric rankedProducts =
     first (js_sort (\<lambda>a b. js_sub (metric (snd a)) (metric (snd b)))
              (positionedFrom 0 rankedProducts))"

text \<open>\<open>p.product.institution.name\<close>: the read of \<open>name\<close> throws when the institution is \<open>null\<close>.\<close>

definition institutionName :: "ScoredProduct \<Rightarrow> js_error + string" where
  "institutionName p =
     (case institution (product p) of None \<Rightarrow> Inl TypeError | Some i \<Rightarrow> Inr (inst_name i))"

definition sentenceAbout ::
  "(string \<Rightarrow> string \<Rightarrow> Sentence) \<Rightarrow> ScoredProduct \<Rightarrow> js_error + Sentence list" where
  "sentenceAbout sentence p =
     (case institutionName p of
        Inl e \<Rightarrow> Inl e
      | Inr inst \<Rightarrow> Inr [sentence inst (name (product p))])"

definition generateRecommendations :: "ScoredProduct list \<Rightarrow> js_error + Recommendations" where
  "generateRecommendations rankedProducts =
     (if length rankedProducts = 0
      then Inr \<lparr> bestOverall = None, lowestRate = None, lowestPayment = None,
                 text_sentences = [NoSuitableOptions] \<rparr>
      else
        (case (first (positionedFrom 0 rankedProducts),
               lowestBy interestRate rankedProducts,
               lowestBy monthlyPayment rankedProducts) of
           (Some (ib, best), Some (ir, lowRate), Some (ip, lowPayment)) \<Rightarrow>
             (case sentenceAbout Recommend best of
                Inl e \<Rightarrow> Inl e
              | Inr recommendation \<Rightarrow>
                  (case (if ib \<noteq> ir then sentenceAbout LowestRateAlternative lowRate
                         else Inr []) of
                     Inl e \<Rightarrow> Inl e
                   | Inr rateSentence \<Rightarrow>
                       (case (if ib \<noteq> ip \<and> ir \<noteq> ip
                              then sentenceAbout LowestPaymentAlternative lowPayment
                              else Inr []) of
                          Inl e \<Rightarrow> Inl e
                        | Inr paymentSentence \<Rightarrow>
                            Inr \<lparr> bestOverall = Some best, lowestRate = Some lowRate,
                                  lowestPayment = Some lowPayment,
                                  text_sentences =
                                    recommendation @ rateSentence @ paymentSentence \<rparr>)))
         | _ \<Rightarrow> Inl TypeError))"

text \<open>The elements of a \<open>Set\<close> filled from \<open>xs\<close>, in insertion order.\<close>

fun uniqueInOrder :: "'a list \<Rightarrow> 'a list" where
  "uniqueInOrder [] = []"
| "uniqueInOrder (x # xs) = x # filter (\<lambda>y. y \<noteq> x) (uniqueInOrder xs)"

text \<open>
  Of the insights and the educational content the objects are modelled and their
  strings (\<open>text\<close>, \<open>description\<close>, the static tables of key points, links and terms) are
  left out. \<open>findSpecialOffers\<close>: \<open>null\<close>, or the text that names the perks returned
  here.
\<close>

definition findSpecialOffers :: "ScoredProduct list \<Rightarrow> string list option" where
  "findSpecialOffers products =
     (let uniquePerks = uniqueInOrder (concat (map (\<lambda>p. perks (product p)) products))
      in if length uniquePerks = 0 then None else Some (take 3 uniquePerks))"

record Insight =
  insight_type :: string
  insight_title :: string

definition generateInsights :: "ScoredProduct list \<Rightarrow> Insight list" where
  "generateInsights rankedProducts =
     (if length rankedProducts = 0 then []
      else [\<lparr> insight_type = ''rate_trend'', insight_title = ''Interest Rate Trend'' \<rparr>,
            \<lparr> insight_type = ''credit_impact'', insight_title = ''Credit Score Impact'' \<rparr>,
            \<lparr> insight_type = ''term_impact'', insight_title = ''Loan Term Consideration'' \<rparr>]
           @ (case findSpecialOffers rankedProducts of
                None \<Rightarrow> []
              | Some offers \<Rightarrow>
                  [\<lparr> insight_type = ''special_offers'', insight_title = ''Special Offers'' \<rparr>]))"

text \<open>
  \<open>contentMap[loanType] || fallback\<close>: \<open>contentMap\<close> is an object literal, so besides its
  two entries the lookup finds the properties every object inherits, and returns
  such a property instead of the fallback.
\<close>

datatype EducationalContent =
  Content (title: string)
| InheritedProperty string

definition inheritedProperties :: "string list" where
  "inheritedProperties =
     [''constructor'', ''hasOwnProperty'', ''isPrototypeOf'', ''propertyIsEnumerable'',
      ''toLocaleString'', ''toString'', ''valueOf'', ''__proto__'', ''__defineGetter__'',
      ''__defineSetter__'', ''__lookupGetter__'', ''__lookupSetter__'']"

definition getEducationalContent :: "string \<Rightarrow> EducationalContent" where
  "getEducationalContent loanType =
     (if loanType = ''Mortgage'' then Content ''Understanding Mortgage Loans''
      else if loanType = ''Personal'' then Content ''Understanding Personal Loans''
      else if loanType \<in> set inheritedProperties then InheritedProperty loanType
      else Content (''Understanding '' @ loanType @ '' Loans''))"

subsection \<open>suggestAlternatives\<close>

datatype Alternative =
  ProductOptions (alt_type: string) (alt_title: string) (alt_products: "LoanProduct list")
| Advice (alt_type: string) (alt_title: string)

definition lowerCreditQuery :: "string \<Rightarrow> real \<Rightarrow> nat \<Rightarrow> real \<Rightarrow> LoanProduct \<Rightarrow> bool" where
  "lowerCreditQuery loanType amount termMonths creditScore p =
     (type p = loanType
      \<and> q_lte (Some (minAmount p)) amount
      \<and> q_gte (maxAmount p) (or_default amount MAX_SAFE_INTEGER)
      \<and> q_lte (Some (real (minTerm p))) (real termMonths)
      \<and> q_gte (map_option real (maxTerm p)) (or_default (real termMonths) MAX_SAFE_INTEGER)
      \<and> q_lt (minCreditScore p) (creditScore - 30)
      \<and> active p)"

definition differentTermQuery :: "string \<Rightarrow> real \<Rightarrow> nat \<Rightarrow> real \<Rightarrow> LoanProduct \<Rightarrow> bool" where
  "differentTermQuery loanType amount termMonths creditScore p =
     (type p = loanType
      \<and> q_lte (Some (minAmount p)) amount
      \<and> q_gte (maxAmount p) (or_default amount MAX_SAFE_INTEGER)
      \<and> q_lte (minCreditScore p) creditScore
      \<and> active p
      \<and> (q_lte (Some (real (minTerm p))) (real termMonths - 12)
         \<or> q_gte (map_option real (maxTerm p)) (real termMonths + 12)))"

definition suggestAlternatives ::
  "LoanProduct list \<Rightarrow> string \<Rightarrow> real \<Rightarrow> nat \<Rightarrow> real \<Rightarrow> Alternative list" where
  "suggestAlternatives catalog loanType amount termMonths creditScore =
     (let lowerCreditOptions =
            take 2 (filter (lowerCreditQuery loanType amount termMonths creditScore) catalog);
          differentTermOptions =
            take 2 (filter (differentTermQuery loanType amount termMonths creditScore) catalog)
      in (if length lowerCreditOptions > 0
          then [ProductOptions ''lower_credit_options'' ''Options for Lower Credit Scores''
                  lowerCreditOptions]
          else [])
         @ (if length differentTermOptions > 0
            then [ProductOptions ''different_term_options''
                    ''Options with Different Loan Terms'' differentTermOptions]
            else [])
         @ (if loanType = ''Personal'' \<and> amount \<ge> 25000
            then [Advice ''different_loan_type'' ''Consider a Home Equity Loan'']
            else []))"

subsection \<open>analyzeLoanOptions\<close>

text \<open>
  The two shapes of the result object: \<open>{ success: false, message, alternatives }\<close> and
  \<open>{ success: true, recommendations, topOptions, allOptions, educationalContent,
  insights }\<close>.
\<close>

datatype AnalysisResult =
  NoEligibleProducts (message: string) (alternatives: "Alternative list")
| Analysis (recommendations: Recommendations) (topOptions: "ScoredProduct list")
    (allOptions: "ScoredProduct list") (educationalContent: EducationalContent)
    (insights: "Insight list")

fun success :: "AnalysisResult \<Rightarrow> bool" where
  "success (NoEligibleProducts m a) = False"
| "success (Analysis r t a e i) = True"

definition noPreferences :: Preferences where
  "noPreferences =
     \<lparr> prioritizeRate = False, prioritizePayment = False, prioritizeService = False,
       prioritizeFlexibility = False, prioritizeApproval = False \<rparr>"

definition noEligibleMessage :: string where
  "noEligibleMessage =
     ''No eligible loan products found. Consider improving your credit score or adjusting loan parameters.''"

text \<open>
  The \<open>preferences\<close> of \<open>params\<close>: left out, \<open>null\<close>, or an object. The default \<open>{}\<close> of
  the destructuring replaces a value that is left out, and not \<open>null\<close>; the flags of an
  object that does not have them are false.
\<close>

datatype PreferencesArg = PreferencesAbsent | PreferencesNull | PreferencesObject Preferences

text \<open>The value of \<open>preferences\<close> after the destructuring, \<open>None\<close> for \<open>null\<close>.\<close>

fun destructuredPreferences :: "PreferencesArg \<Rightarrow> Preferences option" where
  "destructuredPreferences PreferencesAbsent = Some noPreferences"
| "destructuredPreferences PreferencesNull = None"
| "destructuredPreferences (PreferencesObject p) = Some p"

text \<open>
  \<open>rankProducts(analyzedProducts, preferences)\<close> for the value as passed: its first
  statement reads \<open>preferences.prioritizeRate\<close>, which throws for \<open>null\<close>; for an object
  the call is \<open>rankProducts\<close> above.
\<close>

definition rankProductsFor ::
  "AnalyzedProduct list \<Rightarrow> Preferences option \<Rightarrow> js_error + ScoredProduct list" where
  "rankProductsFor analyzedProducts preferences =
     (case preferences of
        None \<Rightarrow> Inl TypeError
      | Some p \<Rightarrow> Inr (rankProducts analyzedProducts p))"

text \<open>
  \<open>analyzeLoanOptions(params)\<close> over the product collection \<open>catalog\<close> and the rate
  collection \<open>rates\<close>, for a \<open>params\<close> with a loan type, an amount and a term.
  \<open>creditScoreArg\<close> is \<open>None\<close> when \<open>params\<close> leaves the credit score out (default 700).
  An exception of a callee leaves the function as it is thrown. Rejections of the
  database promises are not modelled.
\<close>

definition analyzeLoanOptions ::
  "LoanProduct list \<Rightarrow> InterestRate list \<Rightarrow> (nat \<Rightarrow> real) \<Rightarrow> string \<Rightarrow> real \<Rightarrow> nat
     \<Rightarrow> real option \<Rightarrow> PreferencesArg \<Rightarrow> js_error + AnalysisResult" where
  "analyzeLoanOptions catalog rates rnd loanType amount termMonths creditScoreArg preferencesArg =
     (let creditScore = (case creditScoreArg of None \<Rightarrow> 700 | Some s \<Rightarrow> s);
          preferences = destructuredPreferences preferencesArg;
          eligibleProducts = getEligibleProducts catalog loanType amount termMonths creditScore
      in if length eligibleProducts = 0
         then Inr (NoEligibleProducts noEligibleMessage
                (suggestAlternatives catalog loanType amount termMonths creditScore))
         else
           (let analyzedProducts = calculateMetrics rates rnd eligibleProducts amount termMonths
            in case rankProductsFor analyzedProducts preferences of
                 Inl e \<Rightarrow> Inl e
               | Inr rankedProducts \<Rightarrow>
                   (case generateRecommendations rankedProducts of
                      Inl e \<Rightarrow> Inl e
                    | Inr recommended \<Rightarrow>
                        Inr (Analysis recommended (take 3 rankedProducts) rankedProducts
                               (getEducationalContent loanType)
                               (generateInsights rankedProducts)))))"

section \<open>Binary64 arithmetic\<close>

text \<open>
  The Numbers of the program are IEEE 754 binary64 values, and every arithmetic
  operation rounds its exact result to the nearest one, ties to the even mantissa.
  \<open>fl\<close> is that rounding on the reals: the value is scaled by a power of two so
  that its magnitude lies between \<open>2 ^ 52\<close> and \<open>2 ^ 53\<close> (the scaling is at most
  \<open>2 ^ 1074\<close>, which gives the subnormal numbers their fixed spacing), rounded to an
  integer and scaled back. \<open>round64\<close> adds the overflow to an infinity. The operations
  \<open>add64\<close>, \<open>sub64\<close>, \<open>mul64\<close> and \<open>div64\<close> are the operators \<open>+\<close>, \<open>-\<close>, \<open>*\<close> and \<open>/\<close> of
  the program, and \<open>lit x\<close> is the Number that the literal \<open>x\<close> denotes. \<open>Math.pow\<close> is
  taken to return the correctly rounded power.

  The sections above compute with the exact operations \<open>js_add\<close>, \<open>js_sub\<close>, \<open>js_mul\<close> and
  \<open>js_div\<close>, that is, without the rounding; the statements in which the rounding
  decides are made about the binary64 versions of the weights and of the amortization
  below.
\<close>

definition round_even :: "real \<Rightarrow> int" where
  "round_even y =
     (let f = \<lfloor>y\<rfloor>; d = y - of_int f
      in if d < 1 / 2 then f else if 1 / 2 < d then f + 1 else if even f then f else f + 1)"

text \<open>
  The search for the scaling, from \<open>k\<close>, in at most \<open>n\<close> steps: up while the scaled
  magnitude is below \<open>2 ^ 52\<close>, down while it is at least \<open>2 ^ 53\<close>.
\<close>

fun find_shift :: "nat \<Rightarrow> real \<Rightarrow> int \<Rightarrow> int" where
  "find_shift 0 m k = k"
| "find_shift (Suc n) m k =
     (if m * 2 powi k < 2 ^ 52 then find_shift n m (k + 1)
      else if 2 ^ 53 \<le> m * 2 powi k then find_shift n m (k - 1)
      else k)"

definition fl :: "real \<Rightarrow> real" where
  "fl x =
     (if x = 0 then 0
      else let k = min (find_shift 2200 \<bar>x\<bar> 0) 1074
           in of_int (round_even (x * 2 powi k)) / 2 powi k)"

definition round64 :: "jsnum \<Rightarrow> jsnum" where
  "round64 x =
     (case x of
        Fin a \<Rightarrow> if 2 ^ 1024 \<le> \<bar>fl a\<bar> then (if 0 < a then PosInf else NegInf) else Fin (fl a)
      | _ \<Rightarrow> x)"

definition lit :: "real \<Rightarrow> jsnum" where
  "lit x = round64 (Fin x)"

definition add64 :: "jsnum \<Rightarrow> jsnum \<Rightarrow> jsnum" where
  "add64 x y = round64 (js_add x y)"

definition sub64 :: "jsnum \<Rightarrow> jsnum \<Rightarrow> jsnum" where
  "sub64 x y = round64 (js_sub x y)"

definition mul64 :: "jsnum \<Rightarrow> jsnum \<Rightarrow> jsnum" where
  "mul64 x y = round64 (js_mul x y)"

definition div64 :: "jsnum \<Rightarrow> jsnum \<Rightarrow> jsnum" where
  "div64 x y = round64 (js_div x y)"

definition pow64 :: "jsnum \<Rightarrow> nat \<Rightarrow> jsnum" where
  "pow64 x n = round64 (js_pow x n)"

subsection \<open>The weights of rankProducts in binary64 (lines 119 to 131)\<close>

text \<open>The values of the five weights, in the order of their keys.\<close>

definition initialWeights64 :: "Preferences \<Rightarrow> jsnum list" where
  "initialWeights64 preferences =
     [if prioritizeRate preferences then lit 0.4 else lit 0.3,
      if prioritizePayment preferences then lit 0.4 else lit 0.2,
      if prioritizeService preferences then lit 0.3 else lit 0.1,
      if prioritizeFlexibility preferences then lit 0.3 else lit 0.1,
      if prioritizeApproval preferences then lit 0.3 else lit 0.2]"

definition totalWeight64 :: "jsnum list \<Rightarrow> jsnum" where
  "totalWeight64 ws = foldl (\<lambda>sum w. add64 sum w) (lit 0) ws"

definition normalizedWeights64 :: "Preferences \<Rightarrow> jsnum list" where
  "normalizedWeights64 preferences =
     (let ws = initialWeights64 preferences; t = totalWeight64 ws
      in map (\<lambda>w. div64 w t) ws)"

subsection \<open>The amortization of calculateMetrics in binary64 (lines 90 to 95)\<close>

definition monthlyRate64 :: "jsnum \<Rightarrow> jsnum" where
  "monthlyRate64 annualRate = div64 (div64 annualRate (lit 100)) (lit 12)"

definition monthlyPayment64 :: "jsnum \<Rightarrow> jsnum \<Rightarrow> nat \<Rightarrow> jsnum" where
  "monthlyPayment64 amount annualRate termMonths =
     div64
       (mul64 (mul64 amount (monthlyRate64 annualRate))
          (pow64 (add64 (lit 1) (monthlyRate64 annualRate)) termMonths))
       (sub64 (pow64 (add64 (lit 1) (monthlyRate64 annualRate)) termMonths) (lit 1))"

definition totalPayment64 :: "jsnum \<Rightarrow> jsnum \<Rightarrow> nat \<Rightarrow> jsnum" where
  "totalPayment64 amount annualRate termMonths =
     mul64 (monthlyPayment64 amount annualRate termMonths) (lit (real termMonths))"

section \<open>Notions used in the statements\<close>

subsection \<open>The eligibility contract as the specification words it\<close>

text \<open>
  The contract of the eligibility filter in the words of the specification: the type
  matches, the amount and the term lie within the product's bounds with an absent
  upper bound taken as unbounded, the minimum credit score is at most the requested
  one, and the product is active. It is compared with \<open>getEligibleProducts\<close> below.
\<close>

definition withinBoundsAsSpecified ::
  "string \<Rightarrow> real \<Rightarrow> nat \<Rightarrow> real \<Rightarrow> LoanProduct \<Rightarrow> bool" where
  "withinBoundsAsSpecified loanType amount termMonths creditScore p =
     (type p = loanType
      \<and> minAmount p \<le> amount
      \<and> (case maxAmount p of None \<Rightarrow> True | Some m \<Rightarrow> amount \<le> m)
      \<and> minTerm p \<le> termMonths
      \<and> (case maxTerm p of None \<Rightarrow> True | Some m \<Rightarrow> termMonths \<le> m)
      \<and> (case minCreditScore p of None \<Rightarrow> False | Some s \<Rightarrow> s \<le> creditScore)
      \<and> active p)"

subsection \<open>The recommended products\<close>

text \<open>
  The products that the recommendation text names: the best overall, the one with the
  lowest rate and the one with the lowest payment; and a product has its institution.
\<close>

definition recommendedProducts :: "ScoredProduct list \<Rightarrow> ScoredProduct list" where
  "recommendedProducts rankedProducts =
     (case (first rankedProducts, lowestBy interestRate rankedProducts,
            lowestBy monthlyPayment rankedProducts) of
        (Some best, Some (ir, lowRate), Some (ip, lowPayment)) \<Rightarrow> [best, lowRate, lowPayment]
      | _ \<Rightarrow> [])"

definition hasInstitution :: "ScoredProduct \<Rightarrow> bool" where
  "hasInstitution p = (institution (product p) \<noteq> None)"

subsection \<open>Ranges and finite metrics\<close>

text \<open>An observation's credit-score range contains the score \<open>s\<close>.\<close>

definition containsScore :: "InterestRate \<Rightarrow> real \<Rightarrow> bool" where
  "containsScore r s =
     (case (range_min (creditScoreRange r), range_max (creditScoreRange r)) of
        (Some a, Some b) \<Rightarrow> a \<le> s \<and> s \<le> b
      | _ \<Rightarrow> False)"

text \<open>
  A number is finite; the real value of a finite number; the inverted min-max score
  \<open>1 - normalize x m M\<close> of a finite value in a finite range; and an analysed product
  has finite metrics when the five metrics that carry a weight are finite.
\<close>

fun is_finite :: "jsnum \<Rightarrow> bool" where
  "is_finite (Fin a) = True"
| "is_finite x = False"

fun num :: "jsnum \<Rightarrow> real" where
  "num (Fin a) = a"
| "num x = 0"

definition costScore :: "real \<Rightarrow> real \<Rightarrow> real \<Rightarrow> real" where
  "costScore x m M = 1 - (if m = M then 0.5 else (x - m) / (M - m))"

definition finiteMetrics :: "AnalyzedProduct \<Rightarrow> bool" where
  "finiteMetrics p =
     (is_finite (interestRate p) \<and> is_finite (monthlyPayment p) \<and> is_finite (customerService p)
      \<and> is_finite (flexibility p) \<and> is_finite (approvalLikelihood p))"

section \<open>Example data\<close>

text \<open>
  A mortgage product for amounts up to 1000000, terms of 1 to 360 months and a credit
  score of at least 600; a rate observation for a product with a credit-score range;
  a source of random draws that always returns one half; a product whose institution
  is not in the collection; and a product whose \<open>maxAmount\<close> is missing.
\<close>

definition exampleProduct :: "nat \<Rightarrow> string \<Rightarrow> string list \<Rightarrow> LoanProduct" where
  "exampleProduct i n ps =
     \<lparr> product_id = i, institution = Some \<lparr> inst_name = ''First Bank'' \<rparr>,
       name = n,
       type = ''Mortgage'', minAmount = 0, maxAmount = Some 1000000, minTerm = 1,
       maxTerm = Some 360, baseRate = 5, minCreditScore = Some 600, perks = ps,
       active = True \<rparr>"

definition observation :: "nat \<Rightarrow> int \<Rightarrow> real \<Rightarrow> real \<Rightarrow> real \<Rightarrow> InterestRate" where
  "observation i d r a b =
     \<lparr> loanProduct = i, date = d, rate = r, termLength = 360,
       creditScoreRange = \<lparr> range_min = Some a, range_max = Some b \<rparr> \<rparr>"

definition fixedDraws :: "nat \<Rightarrow> real" where
  "fixedDraws k = 1 / 2"

definition orphanProduct :: LoanProduct where
  "orphanProduct = (exampleProduct 1 ''A'' []) \<lparr> institution := None \<rparr>"

definition openEndedProduct :: LoanProduct where
  "openEndedProduct = (exampleProduct 1 ''A'' []) \<lparr> maxAmount := None \<rparr>"

text \<open>Two products with the same rate of 5, analysed for 1200 over 2 months.\<close>

definition sameRateProducts :: "AnalyzedProduct list" where
  "sameRateProducts =
     calculateMetrics [observation 1 10 5 600 850, observation 2 10 5 700 750] fixedDraws
       [exampleProduct 1 ''A'' [], exampleProduct 2 ''B'' []] 1200 2"

text \<open>
  Three products B, A and C in catalog order. A has the lower rate (5 against 6), the
  wider credit-score band, a perk that counts for flexibility, and the higher draw for
  customer service (the draws are 0.1 for the first call and 0.9 afterwards); the
  latest observation of C has rate 0. \<open>analyzedB\<close>, \<open>analyzedA\<close> and \<open>analyzedC\<close> are
  their metrics for 1200 over 2 months.
\<close>

definition exampleDraws :: "nat \<Rightarrow> real" where
  "exampleDraws k = (if k = 0 then 0.1 else 0.9)"

definition dominanceRates :: "InterestRate list" where
  "dominanceRates =
     [observation 1 10 6 700 750, observation 2 10 5 600 850, observation 3 10 0 600 850]"

definition productB :: LoanProduct where
  "productB = exampleProduct 1 ''B'' []"

definition productA :: LoanProduct where
  "productA = exampleProduct 2 ''A'' [''No prepayment penalty'']"

definition productC :: LoanProduct where
  "productC = exampleProduct 3 ''C'' []"

definition analyzedB :: AnalyzedProduct where
  "analyzedB = analyzeProduct productB (observation 1 10 6 700 750) 0.1 1200 2"

definition analyzedA :: AnalyzedProduct where
  "analyzedA = analyzeProduct productA (observation 2 10 5 600 850) 0.9 1200 2"

definition analyzedC :: AnalyzedProduct where
  "analyzedC = analyzeProduct productC (observation 3 10 0 600 850) 0.9 1200 2"

section \<open>Properties\<close>

subsection \<open>Arithmetic on finite numbers\<close>

lemma js_sub_Fin [simp]: "js_sub (Fin a) (Fin b) = Fin (a - b)"
  by (simp add: js_sub_def)

lemma js_min_Fin [simp]: "js_min (Fin a) (Fin b) = Fin (min a b)"
  by (simp add: js_min_def min_def)

lemma js_max_Fin [simp]: "js_max (Fin a) (Fin b) = Fin (max a b)"
  by (simp add: js_max_def max_def)

lemma js_pow_Fin [simp]: "js_pow (Fin a) n = Fin (a ^ n)"
  by (cases n) simp_all

lemma monthlyRate_Fin [simp]: "monthlyRate r = Fin (r / 100 / 12)"
  by (simp add: monthlyRate_def)

subsection \<open>Binary64 rounding\<close>

lemma find_shift_reaches:
  assumes "0 < m" and "2 ^ 52 \<le> m * 2 powi k" and "m * 2 powi k < 2 ^ 53"
    and "\<bar>k - j\<bar> \<le> int n"
  shows "find_shift n m j = k"
  using assms(4)
proof (induction n arbitrary: j)
  case 0
  then show ?case by simp
next
  case (Suc n)
  consider "j = k" | "j < k" | "k < j" by linarith
  then show ?case
  proof cases
    case 1
    with assms show ?thesis by simp
  next
    case 2
    then have "j + 1 \<le> k" by simp
    then have "(2::real) powi (j + 1) \<le> 2 powi k"
      by (intro power_int_increasing) simp_all
    then have "2 * (2::real) powi j \<le> 2 powi k"
      by (simp add: power_int_add)
    then have "m * (2 * 2 powi j) \<le> m * 2 powi k"
      using assms(1) by (intro mult_left_mono) simp_all
    with assms(3) have "m * 2 powi j < 2 ^ 52" by simp
    moreover have "\<bar>k - (j + 1)\<bar> \<le> int n" using 2 Suc.prems by simp
    ultimately show ?thesis using Suc.IH [of "j + 1"] by simp
  next
    case 3
    then have "k + 1 \<le> j" by simp
    then have "(2::real) powi (k + 1) \<le> 2 powi j"
      by (intro power_int_increasing) simp_all
    then have "2 * (2::real) powi k \<le> 2 powi j"
      by (simp add: power_int_add)
    then have "m * (2 * 2 powi k) \<le> m * 2 powi j"
      using assms(1) by (intro mult_left_mono) simp_all
    with assms(2) have "2 ^ 53 \<le> m * 2 powi j" by simp
    moreover have "\<bar>k - (j - 1)\<bar> \<le> int n" using 3 Suc.prems by simp
    ultimately show ?thesis using Suc.IH [of "j - 1"] by simp
  qed
qed

text \<open>
  The rounding of a value whose magnitude, scaled by \<open>2 ^ k\<close>, lies between \<open>2 ^ 52\<close> and
  \<open>2 ^ 53\<close>: the scaled value rounded to an integer, scaled back.
\<close>

lemma fl_shift:
  assumes "2 ^ 52 \<le> \<bar>x\<bar> * 2 powi k" and "\<bar>x\<bar> * 2 powi k < 2 ^ 53"
    and "- 2200 \<le> k" and "k \<le> 1074"
  shows "fl x = of_int (round_even (x * 2 powi k)) / 2 powi k"
proof -
  have "x \<noteq> 0" using assms(1) by auto
  then have pos: "0 < \<bar>x\<bar>" by simp
  have "find_shift 2200 \<bar>x\<bar> 0 = k"
    using find_shift_reaches [OF pos assms(1) assms(2), of 0 2200] assms(3) assms(4)
    by simp
  then show ?thesis
    using \<open>x \<noteq> 0\<close> assms(4) by (simp add: fl_def)
qed

lemma round_even_bounds: "\<bar>of_int (round_even y) - y\<bar> \<le> 1 / 2"
  unfolding round_even_def Let_def by (auto simp: abs_le_iff)

lemma round64_shift:
  fixes k :: nat
  assumes "2 ^ 52 \<le> \<bar>x\<bar> * 2 ^ k" and "\<bar>x\<bar> * 2 ^ k < 2 ^ 53" and "k \<le> 1074"
  shows "round64 (Fin x) = Fin (of_int (round_even (x * 2 ^ k)) / 2 ^ k)"
proof -
  have eq: "fl x = of_int (round_even (x * 2 ^ k)) / 2 ^ k"
    using fl_shift [of x "int k"] assms by simp
  have "\<bar>of_int (round_even (x * 2 ^ k))\<bar> \<le> \<bar>x * 2 ^ k\<bar> + 1 / 2"
    using round_even_bounds [of "x * 2 ^ k"] by linarith
  also have "\<dots> < 2 ^ 53 + 1 / 2"
    using assms(2) by (simp add: abs_mult)
  finally have small: "\<bar>real_of_int (round_even (x * 2 ^ k))\<bar> < 2 ^ 53 + 1 / 2" .
  have "\<bar>real_of_int (round_even (x * 2 ^ k)) / 2 ^ k\<bar>
      = \<bar>real_of_int (round_even (x * 2 ^ k))\<bar> / 2 ^ k"
    by (simp add: abs_divide)
  also have "\<dots> \<le> \<bar>real_of_int (round_even (x * 2 ^ k))\<bar> / 1"
    by (intro divide_left_mono) simp_all
  also have "\<dots> < 2 ^ 1024" using small by simp
  finally show ?thesis
    by (simp add: round64_def eq)
qed

lemma round64_0 [simp]: "round64 (Fin 0) = Fin 0"
  by (simp add: round64_def fl_def)

lemmas round64_weights = round64_shift [where k = 52, simplified] round64_shift [where k = 53, simplified] round64_shift [where k = 54, simplified] round64_shift [where k = 55, simplified] round64_shift [where k = 56, simplified]

lemmas round64_payment =
  round64_shift [where k = 42, simplified]
  round64_shift [where k = 43, simplified]
  round64_shift [where k = 46, simplified]
  round64_shift [where k = 49, simplified]
  round64_shift [where k = 51, simplified]
  round64_shift [where k = 52, simplified]
  round64_shift [where k = 72, simplified]
  round64_shift [where k = 79, simplified]
  round64_shift [where k = 82, simplified]
  round64_shift [where k = 83, simplified]

subsection \<open>Weights\<close>

lemma totalWeight_pos: "0 < totalWeight (initialWeights preferences)"
  by (simp add: totalWeight_def weightValues_def initialWeights_def)

text \<open>
  In exact arithmetic the five weights have the stated values, each is divided by
  their total, and the quotients sum to 1.
\<close>

lemma exact_weights_sum_to_one:
  "weightValues (initialWeights preferences) =
     [if prioritizeRate preferences then 0.4 else 0.3,
      if prioritizePayment preferences then 0.4 else 0.2,
      if prioritizeService preferences then 0.3 else 0.1,
      if prioritizeFlexibility preferences then 0.3 else 0.1,
      if prioritizeApproval preferences then 0.3 else 0.2]
   \<and> weightValues (normalizedWeights preferences) =
       map (\<lambda>w. w / sum_list (weightValues (initialWeights preferences)))
         (weightValues (initialWeights preferences))
   \<and> sum_list (weightValues (normalizedWeights preferences)) = 1"
proof -
  have total: "totalWeight (initialWeights preferences)
      = sum_list (weightValues (initialWeights preferences))"
    by (simp add: totalWeight_def weightValues_def)
  have initial: "weightValues (initialWeights preferences) =
     [if prioritizeRate preferences then 0.4 else 0.3,
      if prioritizePayment preferences then 0.4 else 0.2,
      if prioritizeService preferences then 0.3 else 0.1,
      if prioritizeFlexibility preferences then 0.3 else 0.1,
      if prioritizeApproval preferences then 0.3 else 0.2]"
    by (simp add: weightValues_def initialWeights_def)
  have normalized: "weightValues (normalizedWeights preferences) =
       map (\<lambda>w. w / sum_list (weightValues (initialWeights preferences)))
         (weightValues (initialWeights preferences))"
    unfolding total [symmetric] by (simp add: weightValues_def normalizedWeights_def Let_def)
  have "totalWeight (initialWeights preferences) \<noteq> 0"
    using totalWeight_pos [of preferences] by simp
  then have "sum_list (weightValues (normalizedWeights preferences)) = 1"
    by (simp add: normalizedWeights_def Let_def totalWeight_def weightValues_def
        add_divide_distrib [symmetric])
  with initial normalized show ?thesis by blast
qed

lemma literals64:
  "lit (2 / 5) = Fin (3602879701896397 / 9007199254740992)"
  "lit (3 / 10) = Fin (5404319552844595 / 18014398509481984)"
  "lit (1 / 5) = Fin (3602879701896397 / 18014398509481984)"
  "lit (1 / 10) = Fin (3602879701896397 / 36028797018963968)"
  "lit 0 = Fin 0"
  by (simp_all add: lit_def round64_weights round_even_def Let_def)

text \<open>The binary64 total of the weights, for each of the 32 settings of the flags.\<close>

lemma totalWeight64_values:
  "totalWeight64 (initialWeights64 \<lparr> prioritizeRate = False, prioritizePayment = False, prioritizeService = False, prioritizeFlexibility = False, prioritizeApproval = False \<rparr>)
     = Fin (2026619832316723 / 2251799813685248)"
  "totalWeight64 (initialWeights64 \<lparr> prioritizeRate = False, prioritizePayment = False, prioritizeService = False, prioritizeFlexibility = False, prioritizeApproval = True \<rparr>)
     = Fin (1)"
  "totalWeight64 (initialWeights64 \<lparr> prioritizeRate = False, prioritizePayment = False, prioritizeService = False, prioritizeFlexibility = True, prioritizeApproval = False \<rparr>)
     = Fin (4953959590107545 / 4503599627370496)"
  "totalWeight64 (initialWeights64 \<lparr> prioritizeRate = False, prioritizePayment = False, prioritizeService = False, prioritizeFlexibility = True, prioritizeApproval = True \<rparr>)
     = Fin (5404319552844595 / 4503599627370496)"
  "totalWeight64 (initialWeights64 \<lparr> prioritizeRate = False, prioritizePayment = False, prioritizeService = True, prioritizeFlexibility = False, prioritizeApproval = False \<rparr>)
     = Fin (2476979795053773 / 2251799813685248)"
  "totalWeight64 (initialWeights64 \<lparr> prioritizeRate = False, prioritizePayment = False, prioritizeService = True, prioritizeFlexibility = False, prioritizeApproval = True \<rparr>)
     = Fin (5404319552844595 / 4503599627370496)"
  "totalWeight64 (initialWeights64 \<lparr> prioritizeRate = False, prioritizePayment = False, prioritizeService = True, prioritizeFlexibility = True, prioritizeApproval = False \<rparr>)
     = Fin (5854679515581645 / 4503599627370496)"
  "totalWeight64 (initialWeights64 \<lparr> prioritizeRate = False, prioritizePayment = False, prioritizeService = True, prioritizeFlexibility = True, prioritizeApproval = True \<rparr>)
     = Fin (6305039478318695 / 4503599627370496)"
  "totalWeight64 (initialWeights64 \<lparr> prioritizeRate = False, prioritizePayment = True, prioritizeService = False, prioritizeFlexibility = False, prioritizeApproval = False \<rparr>)
     = Fin (4953959590107545 / 4503599627370496)"
  "totalWeight64 (initialWeights64 \<lparr> prioritizeRate = False, prioritizePayment = True, prioritizeService = False, prioritizeFlexibility = False, prioritizeApproval = True \<rparr>)
     = Fin (5404319552844595 / 4503599627370496)"
  "totalWeight64 (initialWeights64 \<lparr> prioritizeRate = False, prioritizePayment = True, prioritizeService = False, prioritizeFlexibility = True, prioritizeApproval = False \<rparr>)
     = Fin (1463669878895411 / 1125899906842624)"
  "totalWeight64 (initialWeights64 \<lparr> prioritizeRate = False, prioritizePayment = True, prioritizeService = False, prioritizeFlexibility = True, prioritizeApproval = True \<rparr>)
     = Fin (3152519739159347 / 2251799813685248)"
  "totalWeight64 (initialWeights64 \<lparr> prioritizeRate = False, prioritizePayment = True, prioritizeService = True, prioritizeFlexibility = False, prioritizeApproval = False \<rparr>)
     = Fin (5854679515581645 / 4503599627370496)"
  "totalWeight64 (initialWeights64 \<lparr> prioritizeRate = False, prioritizePayment = True, prioritizeService = True, prioritizeFlexibility = False, prioritizeApproval = True \<rparr>)
     = Fin (6305039478318695 / 4503599627370496)"
  "totalWeight64 (initialWeights64 \<lparr> prioritizeRate = False, prioritizePayment = True, prioritizeService = True, prioritizeFlexibility = True, prioritizeApproval = False \<rparr>)
     = Fin (3 / 2)"
  "totalWeight64 (initialWeights64 \<lparr> prioritizeRate = False, prioritizePayment = True, prioritizeService = True, prioritizeFlexibility = True, prioritizeApproval = True \<rparr>)
     = Fin (3602879701896397 / 2251799813685248)"
  "totalWeight64 (initialWeights64 \<lparr> prioritizeRate = True, prioritizePayment = False, prioritizeService = False, prioritizeFlexibility = False, prioritizeApproval = False \<rparr>)
     = Fin (1)"
  "totalWeight64 (initialWeights64 \<lparr> prioritizeRate = True, prioritizePayment = False, prioritizeService = False, prioritizeFlexibility = False, prioritizeApproval = True \<rparr>)
     = Fin (2476979795053773 / 2251799813685248)"
  "totalWeight64 (initialWeights64 \<lparr> prioritizeRate = True, prioritizePayment = False, prioritizeService = False, prioritizeFlexibility = True, prioritizeApproval = False \<rparr>)
     = Fin (5404319552844595 / 4503599627370496)"
  "totalWeight64 (initialWeights64 \<lparr> prioritizeRate = True, prioritizePayment = False, prioritizeService = False, prioritizeFlexibility = True, prioritizeApproval = True \<rparr>)
     = Fin (5854679515581645 / 4503599627370496)"
  "totalWeight64 (initialWeights64 \<lparr> prioritizeRate = True, prioritizePayment = False, prioritizeService = True, prioritizeFlexibility = False, prioritizeApproval = False \<rparr>)
     = Fin (1351079888211149 / 1125899906842624)"
  "totalWeight64 (initialWeights64 \<lparr> prioritizeRate = True, prioritizePayment = False, prioritizeService = True, prioritizeFlexibility = False, prioritizeApproval = True \<rparr>)
     = Fin (2927339757790823 / 2251799813685248)"
  "totalWeight64 (initialWeights64 \<lparr> prioritizeRate = True, prioritizePayment = False, prioritizeService = True, prioritizeFlexibility = True, prioritizeApproval = False \<rparr>)
     = Fin (6305039478318695 / 4503599627370496)"
  "totalWeight64 (initialWeights64 \<lparr> prioritizeRate = True, prioritizePayment = False, prioritizeService = True, prioritizeFlexibility = True, prioritizeApproval = True \<rparr>)
     = Fin (6755399441055745 / 4503599627370496)"
  "totalWeight64 (initialWeights64 \<lparr> prioritizeRate = True, prioritizePayment = True, prioritizeService = False, prioritizeFlexibility = False, prioritizeApproval = False \<rparr>)
     = Fin (5404319552844595 / 4503599627370496)"
  "totalWeight64 (initialWeights64 \<lparr> prioritizeRate = True, prioritizePayment = True, prioritizeService = False, prioritizeFlexibility = False, prioritizeApproval = True \<rparr>)
     = Fin (5854679515581645 / 4503599627370496)"
  "totalWeight64 (initialWeights64 \<lparr> prioritizeRate = True, prioritizePayment = True, prioritizeService = False, prioritizeFlexibility = True, prioritizeApproval = False \<rparr>)
     = Fin (3152519739159347 / 2251799813685248)"
  "totalWeight64 (initialWeights64 \<lparr> prioritizeRate = True, prioritizePayment = True, prioritizeService = False, prioritizeFlexibility = True, prioritizeApproval = True \<rparr>)
     = Fin (3 / 2)"
  "totalWeight64 (initialWeights64 \<lparr> prioritizeRate = True, prioritizePayment = True, prioritizeService = True, prioritizeFlexibility = False, prioritizeApproval = False \<rparr>)
     = Fin (6305039478318695 / 4503599627370496)"
  "totalWeight64 (initialWeights64 \<lparr> prioritizeRate = True, prioritizePayment = True, prioritizeService = True, prioritizeFlexibility = False, prioritizeApproval = True \<rparr>)
     = Fin (6755399441055745 / 4503599627370496)"
  "totalWeight64 (initialWeights64 \<lparr> prioritizeRate = True, prioritizePayment = True, prioritizeService = True, prioritizeFlexibility = True, prioritizeApproval = False \<rparr>)
     = Fin (3602879701896397 / 2251799813685248)"
  "totalWeight64 (initialWeights64 \<lparr> prioritizeRate = True, prioritizePayment = True, prioritizeService = True, prioritizeFlexibility = True, prioritizeApproval = True \<rparr>)
     = Fin (1914029841632461 / 1125899906842624)"
  by (simp_all add: initialWeights64_def totalWeight64_def literals64 add64_def
      round64_weights round_even_def Let_def)

text \<open>The binary64 weights after the division by their total, for each setting.\<close>

lemma normalizedWeights64_values:
  "normalizedWeights64 \<lparr> prioritizeRate = False, prioritizePayment = False, prioritizeService = False, prioritizeFlexibility = False, prioritizeApproval = False \<rparr>
     = [Fin (3002399751580331 / 9007199254740992),
        Fin (4003199668773775 / 18014398509481984),
        Fin (4003199668773775 / 36028797018963968),
        Fin (4003199668773775 / 36028797018963968),
        Fin (4003199668773775 / 18014398509481984)]"
  "normalizedWeights64 \<lparr> prioritizeRate = False, prioritizePayment = False, prioritizeService = False, prioritizeFlexibility = False, prioritizeApproval = True \<rparr>
     = [Fin (5404319552844595 / 18014398509481984),
        Fin (3602879701896397 / 18014398509481984),
        Fin (3602879701896397 / 36028797018963968),
        Fin (3602879701896397 / 36028797018963968),
        Fin (5404319552844595 / 18014398509481984)]"
  "normalizedWeights64 \<lparr> prioritizeRate = False, prioritizePayment = False, prioritizeService = False, prioritizeFlexibility = True, prioritizeApproval = False \<rparr>
     = [Fin (4913017775313269 / 18014398509481984),
        Fin (6550690367084359 / 36028797018963968),
        Fin (6550690367084359 / 72057594037927936),
        Fin (4913017775313269 / 18014398509481984),
        Fin (6550690367084359 / 36028797018963968)]"
  "normalizedWeights64 \<lparr> prioritizeRate = False, prioritizePayment = False, prioritizeService = False, prioritizeFlexibility = True, prioritizeApproval = True \<rparr>
     = [Fin (1 / 4),
        Fin (3002399751580331 / 18014398509481984),
        Fin (3002399751580331 / 36028797018963968),
        Fin (1 / 4),
        Fin (1 / 4)]"
  "normalizedWeights64 \<lparr> prioritizeRate = False, prioritizePayment = False, prioritizeService = True, prioritizeFlexibility = False, prioritizeApproval = False \<rparr>
     = [Fin (1228254443828317 / 4503599627370496),
        Fin (3275345183542179 / 18014398509481984),
        Fin (1228254443828317 / 4503599627370496),
        Fin (3275345183542179 / 36028797018963968),
        Fin (3275345183542179 / 18014398509481984)]"
  "normalizedWeights64 \<lparr> prioritizeRate = False, prioritizePayment = False, prioritizeService = True, prioritizeFlexibility = False, prioritizeApproval = True \<rparr>
     = [Fin (1 / 4),
        Fin (3002399751580331 / 18014398509481984),
        Fin (1 / 4),
        Fin (3002399751580331 / 36028797018963968),
        Fin (1 / 4)]"
  "normalizedWeights64 \<lparr> prioritizeRate = False, prioritizePayment = False, prioritizeService = True, prioritizeFlexibility = True, prioritizeApproval = False \<rparr>
     = [Fin (8314337773607069 / 36028797018963968),
        Fin (1385722962267845 / 9007199254740992),
        Fin (8314337773607069 / 36028797018963968),
        Fin (8314337773607069 / 36028797018963968),
        Fin (1385722962267845 / 9007199254740992)]"
  "normalizedWeights64 \<lparr> prioritizeRate = False, prioritizePayment = False, prioritizeService = True, prioritizeFlexibility = True, prioritizeApproval = True \<rparr>
     = [Fin (3860228252031853 / 18014398509481984),
        Fin (2573485501354569 / 18014398509481984),
        Fin (3860228252031853 / 18014398509481984),
        Fin (3860228252031853 / 18014398509481984),
        Fin (3860228252031853 / 18014398509481984)]"
  "normalizedWeights64 \<lparr> prioritizeRate = False, prioritizePayment = True, prioritizeService = False, prioritizeFlexibility = False, prioritizeApproval = False \<rparr>
     = [Fin (4913017775313269 / 18014398509481984),
        Fin (6550690367084359 / 18014398509481984),
        Fin (6550690367084359 / 72057594037927936),
        Fin (6550690367084359 / 72057594037927936),
        Fin (6550690367084359 / 36028797018963968)]"
  "normalizedWeights64 \<lparr> prioritizeRate = False, prioritizePayment = True, prioritizeService = False, prioritizeFlexibility = False, prioritizeApproval = True \<rparr>
     = [Fin (1 / 4),
        Fin (3002399751580331 / 9007199254740992),
        Fin (3002399751580331 / 36028797018963968),
        Fin (3002399751580331 / 36028797018963968),
        Fin (1 / 4)]"
  "normalizedWeights64 \<lparr> prioritizeRate = False, prioritizePayment = True, prioritizeService = False, prioritizeFlexibility = True, prioritizeApproval = False \<rparr>
     = [Fin (4157168886803535 / 18014398509481984),
        Fin (5542891849071381 / 18014398509481984),
        Fin (5542891849071381 / 72057594037927936),
        Fin (4157168886803535 / 18014398509481984),
        Fin (5542891849071381 / 36028797018963968)]"
  "normalizedWeights64 \<lparr> prioritizeRate = False, prioritizePayment = True, prioritizeService = False, prioritizeFlexibility = True, prioritizeApproval = True \<rparr>
     = [Fin (1930114126015927 / 9007199254740992),
        Fin (5146971002709139 / 18014398509481984),
        Fin (5146971002709139 / 72057594037927936),
        Fin (1930114126015927 / 9007199254740992),
        Fin (1930114126015927 / 9007199254740992)]"
  "normalizedWeights64 \<lparr> prioritizeRate = False, prioritizePayment = True, prioritizeService = True, prioritizeFlexibility = False, prioritizeApproval = False \<rparr>
     = [Fin (8314337773607069 / 36028797018963968),
        Fin (1385722962267845 / 4503599627370496),
        Fin (8314337773607069 / 36028797018963968),
        Fin (1385722962267845 / 18014398509481984),
        Fin (1385722962267845 / 9007199254740992)]"
  "normalizedWeights64 \<lparr> prioritizeRate = False, prioritizePayment = True, prioritizeService = True, prioritizeFlexibility = False, prioritizeApproval = True \<rparr>
     = [Fin (3860228252031853 / 18014398509481984),
        Fin (2573485501354569 / 9007199254740992),
        Fin (3860228252031853 / 18014398509481984),
        Fin (2573485501354569 / 36028797018963968),
        Fin (3860228252031853 / 18014398509481984)]"
  "normalizedWeights64 \<lparr> prioritizeRate = False, prioritizePayment = True, prioritizeService = True, prioritizeFlexibility = True, prioritizeApproval = False \<rparr>
     = [Fin (7205759403792793 / 36028797018963968),
        Fin (4803839602528529 / 18014398509481984),
        Fin (7205759403792793 / 36028797018963968),
        Fin (7205759403792793 / 36028797018963968),
        Fin (4803839602528529 / 36028797018963968)]"
  "normalizedWeights64 \<lparr> prioritizeRate = False, prioritizePayment = True, prioritizeService = True, prioritizeFlexibility = True, prioritizeApproval = True \<rparr>
     = [Fin (6755399441055743 / 36028797018963968),
        Fin (1 / 4),
        Fin (6755399441055743 / 36028797018963968),
        Fin (6755399441055743 / 36028797018963968),
        Fin (6755399441055743 / 36028797018963968)]"
  "normalizedWeights64 \<lparr> prioritizeRate = True, prioritizePayment = False, prioritizeService = False, prioritizeFlexibility = False, prioritizeApproval = False \<rparr>
     = [Fin (3602879701896397 / 9007199254740992),
        Fin (3602879701896397 / 18014398509481984),
        Fin (3602879701896397 / 36028797018963968),
        Fin (3602879701896397 / 36028797018963968),
        Fin (3602879701896397 / 18014398509481984)]"
  "normalizedWeights64 \<lparr> prioritizeRate = True, prioritizePayment = False, prioritizeService = False, prioritizeFlexibility = False, prioritizeApproval = True \<rparr>
     = [Fin (3275345183542179 / 9007199254740992),
        Fin (3275345183542179 / 18014398509481984),
        Fin (3275345183542179 / 36028797018963968),
        Fin (3275345183542179 / 36028797018963968),
        Fin (1228254443828317 / 4503599627370496)]"
  "normalizedWeights64 \<lparr> prioritizeRate = True, prioritizePayment = False, prioritizeService = False, prioritizeFlexibility = True, prioritizeApproval = False \<rparr>
     = [Fin (3002399751580331 / 9007199254740992),
        Fin (3002399751580331 / 18014398509481984),
        Fin (3002399751580331 / 36028797018963968),
        Fin (1 / 4),
        Fin (3002399751580331 / 18014398509481984)]"
  "normalizedWeights64 \<lparr> prioritizeRate = True, prioritizePayment = False, prioritizeService = False, prioritizeFlexibility = True, prioritizeApproval = True \<rparr>
     = [Fin (1385722962267845 / 4503599627370496),
        Fin (1385722962267845 / 9007199254740992),
        Fin (1385722962267845 / 18014398509481984),
        Fin (8314337773607069 / 36028797018963968),
        Fin (8314337773607069 / 36028797018963968)]"
  "normalizedWeights64 \<lparr> prioritizeRate = True, prioritizePayment = False, prioritizeService = True, prioritizeFlexibility = False, prioritizeApproval = False \<rparr>
     = [Fin (6004799503160661 / 18014398509481984),
        Fin (6004799503160661 / 36028797018963968),
        Fin (4503599627370495 / 18014398509481984),
        Fin (6004799503160661 / 72057594037927936),
        Fin (6004799503160661 / 36028797018963968)]"
  "normalizedWeights64 \<lparr> prioritizeRate = True, prioritizePayment = False, prioritizeService = True, prioritizeFlexibility = False, prioritizeApproval = True \<rparr>
     = [Fin (5542891849071379 / 18014398509481984),
        Fin (5542891849071379 / 36028797018963968),
        Fin (2078584443401767 / 9007199254740992),
        Fin (5542891849071379 / 72057594037927936),
        Fin (2078584443401767 / 9007199254740992)]"
  "normalizedWeights64 \<lparr> prioritizeRate = True, prioritizePayment = False, prioritizeService = True, prioritizeFlexibility = True, prioritizeApproval = False \<rparr>
     = [Fin (2573485501354569 / 9007199254740992),
        Fin (2573485501354569 / 18014398509481984),
        Fin (3860228252031853 / 18014398509481984),
        Fin (3860228252031853 / 18014398509481984),
        Fin (2573485501354569 / 18014398509481984)]"
  "normalizedWeights64 \<lparr> prioritizeRate = True, prioritizePayment = False, prioritizeService = True, prioritizeFlexibility = True, prioritizeApproval = True \<rparr>
     = [Fin (4803839602528529 / 18014398509481984),
        Fin (4803839602528529 / 36028797018963968),
        Fin (900719925474099 / 4503599627370496),
        Fin (900719925474099 / 4503599627370496),
        Fin (900719925474099 / 4503599627370496)]"
  "normalizedWeights64 \<lparr> prioritizeRate = True, prioritizePayment = True, prioritizeService = False, prioritizeFlexibility = False, prioritizeApproval = False \<rparr>
     = [Fin (3002399751580331 / 9007199254740992),
        Fin (3002399751580331 / 9007199254740992),
        Fin (3002399751580331 / 36028797018963968),
        Fin (3002399751580331 / 36028797018963968),
        Fin (3002399751580331 / 18014398509481984)]"
  "normalizedWeights64 \<lparr> prioritizeRate = True, prioritizePayment = True, prioritizeService = False, prioritizeFlexibility = False, prioritizeApproval = True \<rparr>
     = [Fin (1385722962267845 / 4503599627370496),
        Fin (1385722962267845 / 4503599627370496),
        Fin (1385722962267845 / 18014398509481984),
        Fin (1385722962267845 / 18014398509481984),
        Fin (8314337773607069 / 36028797018963968)]"
  "normalizedWeights64 \<lparr> prioritizeRate = True, prioritizePayment = True, prioritizeService = False, prioritizeFlexibility = True, prioritizeApproval = False \<rparr>
     = [Fin (5146971002709139 / 18014398509481984),
        Fin (5146971002709139 / 18014398509481984),
        Fin (5146971002709139 / 72057594037927936),
        Fin (1930114126015927 / 9007199254740992),
        Fin (5146971002709139 / 36028797018963968)]"
  "normalizedWeights64 \<lparr> prioritizeRate = True, prioritizePayment = True, prioritizeService = False, prioritizeFlexibility = True, prioritizeApproval = True \<rparr>
     = [Fin (4803839602528529 / 18014398509481984),
        Fin (4803839602528529 / 18014398509481984),
        Fin (4803839602528529 / 72057594037927936),
        Fin (7205759403792793 / 36028797018963968),
        Fin (7205759403792793 / 36028797018963968)]"
  "normalizedWeights64 \<lparr> prioritizeRate = True, prioritizePayment = True, prioritizeService = True, prioritizeFlexibility = False, prioritizeApproval = False \<rparr>
     = [Fin (2573485501354569 / 9007199254740992),
        Fin (2573485501354569 / 9007199254740992),
        Fin (3860228252031853 / 18014398509481984),
        Fin (2573485501354569 / 36028797018963968),
        Fin (2573485501354569 / 18014398509481984)]"
  "normalizedWeights64 \<lparr> prioritizeRate = True, prioritizePayment = True, prioritizeService = True, prioritizeFlexibility = False, prioritizeApproval = True \<rparr>
     = [Fin (4803839602528529 / 18014398509481984),
        Fin (4803839602528529 / 18014398509481984),
        Fin (900719925474099 / 4503599627370496),
        Fin (4803839602528529 / 72057594037927936),
        Fin (900719925474099 / 4503599627370496)]"
  "normalizedWeights64 \<lparr> prioritizeRate = True, prioritizePayment = True, prioritizeService = True, prioritizeFlexibility = True, prioritizeApproval = False \<rparr>
     = [Fin (1 / 4),
        Fin (1 / 4),
        Fin (6755399441055743 / 36028797018963968),
        Fin (6755399441055743 / 36028797018963968),
        Fin (1 / 8)]"
  "normalizedWeights64 \<lparr> prioritizeRate = True, prioritizePayment = True, prioritizeService = True, prioritizeFlexibility = True, prioritizeApproval = True \<rparr>
     = [Fin (4238682002231055 / 18014398509481984),
        Fin (4238682002231055 / 18014398509481984),
        Fin (3179011501673291 / 18014398509481984),
        Fin (3179011501673291 / 18014398509481984),
        Fin (3179011501673291 / 18014398509481984)]"
  unfolding normalizedWeights64_def Let_def totalWeight64_values
  by (simp_all add: initialWeights64_def literals64 div64_def round64_weights round_even_def
      Let_def)

text \<open>
  Claim C5, as stated, fails: without any flag the five binary64 weights are the
  values below, their exact sum is \<open>1 + 3 / 2 ^ 54\<close>, and their sum accumulated in
  binary64, as the program would add them, is \<open>1 + 1 / 2 ^ 52\<close>, which prints as
  1.0000000000000002.
\<close>

theorem default_weights_counterexample:
  "normalizedWeights64 noPreferences
     = [Fin (3002399751580331 / 9007199254740992),
        Fin (4003199668773775 / 18014398509481984),
        Fin (4003199668773775 / 36028797018963968),
        Fin (4003199668773775 / 36028797018963968),
        Fin (4003199668773775 / 18014398509481984)]
   \<and> sum_list [3002399751580331 / 9007199254740992,
        4003199668773775 / 18014398509481984,
        4003199668773775 / 36028797018963968,
        4003199668773775 / 36028797018963968,
        4003199668773775 / 18014398509481984] = (1 + 3 / 2 ^ 54 :: real)
   \<and> foldl add64 (lit 0) (normalizedWeights64 noPreferences) = Fin (1 + 1 / 2 ^ 52)
   \<and> foldl add64 (lit 0) (normalizedWeights64 noPreferences) \<noteq> Fin 1"
  unfolding noPreferences_def normalizedWeights64_values
  by (simp add: literals64 add64_def round64_weights round_even_def Let_def)

text \<open>
  Claim C5, amended. For every combination of the five flags, the weights that
  \<open>rankProducts\<close> derives in its binary64 arithmetic (0.3, 0.2, 0.1, 0.1, 0.2, a set
  flag giving 0.4 for rate and payment and 0.3 for service, flexibility and approval,
  each divided by their total) sum to 1 within floating-point tolerance: the sum,
  taken exactly or accumulated in binary64, differs from 1 by at most \<open>1 / 2 ^ 52\<close>.
\<close>

theorem weights_sum_within_tolerance:
  "length (normalizedWeights64 preferences) = 5
   \<and> list_all is_finite (normalizedWeights64 preferences)
   \<and> \<bar>sum_list (map num (normalizedWeights64 preferences)) - 1\<bar> \<le> 1 / 2 ^ 52
   \<and> is_finite (foldl add64 (lit 0) (normalizedWeights64 preferences))
   \<and> \<bar>num (foldl add64 (lit 0) (normalizedWeights64 preferences)) - 1\<bar> \<le> 1 / 2 ^ 52"
proof -
  obtain b1 b2 b3 b4 b5 where flags: "preferences =
      \<lparr> prioritizeRate = b1, prioritizePayment = b2, prioritizeService = b3,
        prioritizeFlexibility = b4, prioritizeApproval = b5 \<rparr>"
    by (cases preferences) auto
  show ?thesis
    unfolding flags
    by (cases b1; cases b2; cases b3; cases b4; cases b5;
        simp add: normalizedWeights64_values literals64 add64_def round64_weights
          round_even_def Let_def)
qed

subsection \<open>Amortization\<close>

lemma zero_rate_payment: "monthlyPaymentOf amount 0 termMonths = NaN"
  by (simp add: monthlyPaymentOf_def)

text \<open>
  Claim C4. The claim asks for a payment of \<open>P / N\<close> at an annual rate of 0. The
  computation has no such case: at rate 0 the monthly rate is 0, numerator and
  denominator of the closed form are both 0, and the quotient is \<open>NaN\<close>. For a
  principal of 1200 over 12 months the claim gives 100 and the code gives \<open>NaN\<close>, also
  as the monthly payment of a product that \<open>calculateMetrics\<close> analyses at a rate
  observation of 0.
\<close>

theorem zero_rate_payment_is_NaN:
  "monthlyPaymentOf 1200 0 12 = NaN
   \<and> monthlyPaymentOf 1200 0 12 \<noteq> Fin (1200 / 12)
   \<and> map monthlyPayment
         (calculateMetrics [observation 1 10 0 600 850] fixedDraws [exampleProduct 1 ''A'' []]
            1200 12) = [NaN]"
  by (simp add: zero_rate_payment calculateMetrics_def getLatestRate_def observation_def
      exampleProduct_def analyzeProduct_def)

lemma geometric_bound:
  fixes r :: real
  assumes "0 \<le> r"
  shows "(1 + r) ^ n - 1 \<le> real n * r * (1 + r) ^ n"
proof (induction n)
  case 0
  show ?case by simp
next
  case (Suc n)
  have one_le: "1 \<le> (1 + r) ^ Suc n"
    by (rule one_le_power) (use assms in simp)
  have "(1 + r) ^ Suc n - 1 = (1 + r) * ((1 + r) ^ n - 1) + r"
    by (simp add: algebra_simps)
  also have "\<dots> \<le> (1 + r) * (real n * r * (1 + r) ^ n) + r"
    using Suc.IH assms by (simp add: mult_left_mono)
  also have "\<dots> \<le> (1 + r) * (real n * r * (1 + r) ^ n) + r * (1 + r) ^ Suc n"
    using one_le assms mult_left_mono [OF one_le, of r] by simp
  also have "\<dots> = real (Suc n) * r * (1 + r) ^ Suc n"
    by (simp add: algebra_simps)
  finally show ?case .
qed

text \<open>
  In exact arithmetic, for a principal \<open>P > 0\<close>, a term of \<open>N > 0\<close> months and an annual
  rate \<open>R > 0\<close>, the monthly payment is the finite number
  \<open>P * r * (1 + r) ^ N / ((1 + r) ^ N - 1)\<close> with \<open>r = R / 100 / 12\<close>, the total payment
  is that payment times \<open>N\<close>, and the total payment is at least the principal.
\<close>

lemma exact_total_payment_covers_principal:
  assumes "0 < P" and "0 < N" and "0 < R"
  shows "\<exists>pay. monthlyPaymentOf P R N = Fin pay
           \<and> pay = P * (R / 100 / 12) * (1 + R / 100 / 12) ^ N / ((1 + R / 100 / 12) ^ N - 1)
           \<and> totalPaymentOf P R N = Fin (pay * real N)
           \<and> P \<le> pay * real N"
proof -
  define r where "r = R / 100 / 12"
  define d where "d = (1 + r) ^ N - 1"
  have r_pos: "0 < r" using assms by (simp add: r_def)
  have "1 < (1 + r) ^ N"
    using r_pos assms(2) by (simp add: one_less_power)
  then have d_pos: "0 < d" by (simp add: d_def)
  define pay where "pay = P * r * (1 + r) ^ N / d"
  have mp: "monthlyPaymentOf P R N = Fin pay"
    using d_pos by (simp add: monthlyPaymentOf_def pay_def d_def r_def)
  have tp: "totalPaymentOf P R N = Fin (pay * real N)"
    by (simp add: totalPaymentOf_def mp)
  have "d \<le> real N * r * (1 + r) ^ N"
    using geometric_bound [of r N] r_pos by (simp add: d_def)
  then have "P * d \<le> P * (real N * r * (1 + r) ^ N)"
    using assms(1) by (simp add: mult_left_mono)
  then have "P \<le> P * (real N * r * (1 + r) ^ N) / d"
    using d_pos by (simp add: pos_le_divide_eq)
  also have "\<dots> = pay * real N"
    by (simp add: pay_def algebra_simps)
  finally have "P \<le> pay * real N" .
  with mp tp show ?thesis
    unfolding pay_def d_def r_def by blast
qed

lemma tiny_rate_steps:
  "monthlyRate64 (lit (1 / 1000000)) = Fin (1007438183012191 / 1208925819614629174706176)"
  "pow64 (add64 (lit 1) (Fin (1007438183012191 / 1208925819614629174706176))) 2
     = Fin (281474977179781 / 281474976710656)"
  by (simp_all add: monthlyRate64_def lit_def div64_def add64_def pow64_def round64_payment
      round_even_def Let_def power2_eq_square)

lemma tiny_rate_payment:
  "monthlyPayment64 (lit 1200) (lit (1 / 1000000)) 2
     = Fin (164926730795179 / 274877906944)"
  unfolding monthlyPayment64_def tiny_rate_steps
  by (simp add: lit_def mul64_def div64_def sub64_def round64_payment round_even_def Let_def)

text \<open>
  Claim C6. The claim says that for every positive principal, term and rate the total
  payment is at least the principal. In exact arithmetic it is (lemma
  \<open>exact_total_payment_covers_principal\<close>), but the program computes in binary64: for a
  principal of 1200 over 2 months at an annual rate of 0.000001, the monthly rate
  \<open>r\<close> is about \<open>8.3e-10\<close>, the sum \<open>1 + r\<close> keeps only the leading digits of \<open>r\<close>, the
  denominator \<open>(1 + r) ^ 2 - 1\<close> comes out larger than \<open>2 * r\<close> by more than the interest,
  and the total payment is 1199.9999027115628, less than the principal.
\<close>

theorem tiny_rate_total_below_principal:
  "monthlyPayment64 (lit 1200) (lit (1 / 1000000)) 2
     = Fin (164926730795179 / 274877906944)
   \<and> totalPayment64 (lit 1200) (lit (1 / 1000000)) 2
       = Fin (164926730795179 / 137438953472)
   \<and> (164926730795179 / 137438953472 :: real) < 1200
   \<and> lit 1200 = Fin 1200
   \<and> (\<exists>t. totalPaymentOf 1200 (1 / 1000000) 2 = Fin t \<and> 1200 \<le> t)"
proof -
  have total: "totalPayment64 (lit 1200) (lit (1 / 1000000)) 2
       = Fin (164926730795179 / 137438953472)"
    unfolding totalPayment64_def tiny_rate_payment
    by (simp add: lit_def mul64_def round64_payment round_even_def Let_def)
  have principal: "lit 1200 = Fin 1200"
    by (simp add: lit_def round64_payment round_even_def Let_def)
  have "(0::real) < 1200" "(0::nat) < 2" "(0::real) < 1 / 1000000" by simp_all
  from exact_total_payment_covers_principal [OF this]
  have exact: "\<exists>t. totalPaymentOf 1200 (1 / 1000000) 2 = Fin t \<and> 1200 \<le> t"
    by blast
  have below: "(164926730795179 / 137438953472 :: real) < 1200"
    by simp
  from tiny_rate_payment total principal exact below show ?thesis
    by (intro conjI)
qed

subsection \<open>The rate lookup\<close>

lemma latest_by_date_None: "latest_by_date xs = None \<longleftrightarrow> xs = []"
  by (cases xs) (auto split: option.splits)

lemma latest_by_date_Some:
  "latest_by_date xs = Some r \<Longrightarrow> r \<in> set xs \<and> (\<forall>x\<in>set xs. date x \<le> date r)"
proof (induction xs arbitrary: r)
  case Nil
  then show ?case by simp
next
  case (Cons x xs)
  then show ?case
    by (fastforce split: option.splits if_splits simp: latest_by_date_None)
qed

lemma q_range:
  "q_lte (range_min (creditScoreRange r)) s \<and> q_gte (range_max (creditScoreRange r)) s
     \<longleftrightarrow> containsScore r s"
  by (cases "range_min (creditScoreRange r)"; cases "range_max (creditScoreRange r)")
    (auto simp: containsScore_def)

text \<open>
  What \<open>getLatestRate\<close> returns: an observation of the product whose range contains
  the score of the lookup (720 when the caller passes none), and no such observation
  is more recent; and it returns nothing exactly when there is no such observation.
\<close>

lemma getLatestRate_Some:
  assumes "getLatestRate rates pid arg = Some r"
  shows "r \<in> set rates \<and> loanProduct r = pid
     \<and> containsScore r (case arg of None \<Rightarrow> 720 | Some s \<Rightarrow> s)
     \<and> (\<forall>x\<in>set rates. loanProduct x = pid
            \<and> containsScore x (case arg of None \<Rightarrow> 720 | Some s \<Rightarrow> s)
          \<longrightarrow> date x \<le> date r)"
  using latest_by_date_Some [OF assms [unfolded getLatestRate_def Let_def]]
  by (auto simp: q_range)

lemma getLatestRate_None:
  "getLatestRate rates pid arg = None \<longleftrightarrow>
     (\<forall>x\<in>set rates. \<not> (loanProduct x = pid
         \<and> containsScore x (case arg of None \<Rightarrow> 720 | Some s \<Rightarrow> s)))"
  by (auto simp: getLatestRate_def Let_def latest_by_date_None filter_empty_conv q_range)

lemma getLatestRate_range_ordered:
  assumes "getLatestRate rates pid arg = Some r"
  shows "\<exists>a b. creditScoreRange r = \<lparr> range_min = Some a, range_max = Some b \<rparr> \<and> a \<le> b"
proof -
  from getLatestRate_Some [OF assms]
  have "containsScore r (case arg of None \<Rightarrow> 720 | Some s \<Rightarrow> s)" by simp
  then obtain a b where
    "range_min (creditScoreRange r) = Some a" "range_max (creditScoreRange r) = Some b"
    "a \<le> b"
    by (auto simp: containsScore_def split: option.splits)
  then show ?thesis by (cases "creditScoreRange r") auto
qed

text \<open>
  \<open>calculateMetrics\<close> keeps, in order, the products for which the lookup without a
  score finds an observation, and drops the others.
\<close>

lemma calculateMetricsFrom_products:
  "map product (calculateMetricsFrom rates rnd k products amount termMonths) =
     filter (\<lambda>p. getLatestRate rates (product_id p) None \<noteq> None) products"
  by (induction products arbitrary: k) (auto simp: analyzeProduct_def split: option.splits)

lemma calculateMetrics_products:
  "map product (calculateMetrics rates rnd products amount termMonths) =
     filter (\<lambda>p. getLatestRate rates (product_id p) None \<noteq> None) products"
  by (simp add: calculateMetrics_def calculateMetricsFrom_products)

text \<open>
  Claim C1. The claim says that the rate of a product is the latest observation whose
  range contains the caller's credit score. \<open>calculateMetrics\<close> calls
  \<open>getLatestRate\<close> with the product's id alone, so the lookup runs with the default
  score 720 whatever the caller's score is. For a caller with score 650 and a product
  whose only observation covers 600 to 700: the product is eligible, a lookup with the
  caller's score finds the observation, and \<open>calculateMetrics\<close> drops the product, so
  the analysis has no options. With an observation covering 700 to 850 instead, which
  does not contain 650, the product is analysed at that observation's rate.
\<close>

theorem caller_score_not_used:
  "getEligibleProducts [exampleProduct 1 ''A'' []] ''Mortgage'' 250000 360 650
     = [exampleProduct 1 ''A'' []]
   \<and> getLatestRate [observation 1 10 4.5 600 700] 1 (Some 650)
       = Some (observation 1 10 4.5 600 700)
   \<and> calculateMetrics [observation 1 10 4.5 600 700] fixedDraws [exampleProduct 1 ''A'' []]
       250000 360 = []
   \<and> (\<exists>result.
         analyzeLoanOptions [exampleProduct 1 ''A'' []] [observation 1 10 4.5 600 700]
           fixedDraws ''Mortgage'' 250000 360 (Some 650) PreferencesAbsent = Inr result
         \<and> allOptions result = [])
   \<and> getLatestRate [observation 1 10 4.5 700 850] 1 (Some 650) = None
   \<and> map interestRate (calculateMetrics [observation 1 10 4.5 700 850] fixedDraws
        [exampleProduct 1 ''A'' []] 250000 360) = [Fin 4.5]"
  by (simp add: getEligibleProducts_def eligible_def exampleProduct_def or_default_def
      js_truthy_def MAX_SAFE_INTEGER_def getLatestRate_def observation_def
      calculateMetrics_def analyzeLoanOptions_def Let_def rankProducts_def js_sort_def
      analyzeProduct_def rankProductsFor_def generateRecommendations_def)

subsection \<open>APR estimate and approval likelihood\<close>

lemma calculateAPR_unchanged: "calculateAPR (Fin r) p = Fin r"
  by (simp add: calculateAPR_def fees_def)

lemma calculateMetricsFrom_apr:
  "map apr (calculateMetricsFrom rates rnd k products amount termMonths) =
     map interestRate (calculateMetricsFrom rates rnd k products amount termMonths)"
  by (induction products arbitrary: k)
    (auto simp: analyzeProduct_def calculateAPR_unchanged split: option.splits)

text \<open>
  Claim C10. A product document has no \<open>fees\<close>, so \<open>calculateAPR\<close> adds 0: for every
  product that \<open>calculateMetrics\<close> analyses, the APR estimate is the matched interest
  rate unchanged.
\<close>

theorem apr_equals_interest_rate:
  "map apr (calculateMetrics rates rnd products amount termMonths) =
     map interestRate (calculateMetrics rates rnd products amount termMonths)"
  by (simp add: calculateMetrics_def calculateMetricsFrom_apr)

lemma assess_present:
  "assessApprovalLikelihood p \<lparr> range_min = Some a, range_max = Some b \<rparr>
     = Fin (min 1 ((b - a) / 200))"
  by (simp add: assessApprovalLikelihood_def bound_num_def)

text \<open>
  Claim C9. For every product and every credit-score range from \<open>a\<close> to \<open>b\<close>, the
  approval likelihood is \<open>min 1 ((b - a) / 200)\<close>; it lies between 0 and 1 (the lower
  bound because \<open>a \<le> b\<close> in a range); a range at least as wide gets a score at least
  as high; and for every observation that the rate lookup returns, which is where
  \<open>calculateMetrics\<close> takes the range from, the score is a number between 0 and 1.
\<close>

theorem approval_likelihood:
  "assessApprovalLikelihood p \<lparr> range_min = Some a, range_max = Some b \<rparr>
     = Fin (min 1 ((b - a) / 200))
   \<and> (a \<le> b \<longrightarrow> 0 \<le> min 1 ((b - a) / 200) \<and> min 1 ((b - a) / 200) \<le> 1)
   \<and> (b - a \<le> b' - a' \<longrightarrow> min 1 ((b - a) / 200) \<le> min 1 ((b' - a') / 200))
   \<and> (getLatestRate rates pid arg = Some r \<longrightarrow>
        (\<exists>s. assessApprovalLikelihood p (creditScoreRange r) = Fin s \<and> 0 \<le> s \<and> s \<le> 1))"
proof -
  have returned: "\<exists>s. assessApprovalLikelihood p (creditScoreRange r) = Fin s \<and> 0 \<le> s \<and> s \<le> 1"
    if "getLatestRate rates pid arg = Some r"
  proof -
    from getLatestRate_range_ordered [OF that] obtain lower upper where
      "creditScoreRange r = \<lparr> range_min = Some lower, range_max = Some upper \<rparr>"
      "lower \<le> upper"
      by blast
    then show ?thesis
      by (simp add: assess_present min_def)
  qed
  then show ?thesis
    by (auto simp: assess_present min_def)
qed

theorem approval_likelihood_witness:
  "assessApprovalLikelihood (exampleProduct 1 ''A'' [])
       \<lparr> range_min = Some 600, range_max = Some 700 \<rparr> = Fin (1 / 2)
   \<and> (600::real) \<le> 700 \<and> (0::real) \<le> min 1 ((700 - 600) / 200)
   \<and> min 1 ((700 - 600) / 200) \<le> (1::real)
   \<and> (700::real) - 600 \<le> 850 - 700
   \<and> min 1 ((700 - 600) / 200) \<le> (min 1 ((850 - 700) / 200) :: real)
   \<and> getLatestRate [observation 1 10 4.5 700 850] 1 None = Some (observation 1 10 4.5 700 850)
   \<and> (\<exists>s. assessApprovalLikelihood (exampleProduct 1 ''A'' [])
              (creditScoreRange (observation 1 10 4.5 700 850)) = Fin s \<and> 0 \<le> s \<and> s \<le> 1)"
proof -
  have found: "getLatestRate [observation 1 10 4.5 700 850] 1 None
      = Some (observation 1 10 4.5 700 850)"
    by (simp add: getLatestRate_def observation_def)
  from approval_likelihood [of "exampleProduct 1 ''A'' []" 600 700 850 700
      "[observation 1 10 4.5 700 850]" 1 None "observation 1 10 4.5 700 850"] found
  show ?thesis by simp
qed

subsection \<open>Eligibility\<close>

lemma eligible_iff:
  assumes "amount \<noteq> 0" and "termMonths \<noteq> 0"
  shows "eligible loanType amount termMonths creditScore p \<longleftrightarrow>
     type p = loanType
     \<and> (\<exists>m. maxAmount p = Some m \<and> minAmount p \<le> amount \<and> amount \<le> m)
     \<and> (\<exists>m. maxTerm p = Some m \<and> minTerm p \<le> termMonths \<and> termMonths \<le> m)
     \<and> (\<exists>s. minCreditScore p = Some s \<and> s \<le> creditScore)
     \<and> active p"
  using assms
  by (cases "maxAmount p"; cases "maxTerm p"; cases "minCreditScore p")
    (auto simp: eligible_def or_default_def js_truthy_def)

text \<open>
  What the query does select: for a non-zero amount and a non-zero term, exactly the
  products whose type matches, that have a \<open>maxAmount\<close>, a \<open>maxTerm\<close> and a
  \<open>minCreditScore\<close>, with \<open>minAmount \<le> amount \<le> maxAmount\<close>, \<open>minTerm \<le> term \<le> maxTerm\<close>
  and \<open>minCreditScore \<le> score\<close>, and that are active; on the products that have both
  upper bounds it agrees with the contract of the specification. The result is
  always a subsequence of the catalog, in catalog order.
\<close>

lemma getEligibleProducts_selects:
  assumes "amount \<noteq> 0" and "termMonths \<noteq> 0"
  shows "getEligibleProducts catalog loanType amount termMonths creditScore =
       filter (\<lambda>p. type p = loanType
                 \<and> (\<exists>m. maxAmount p = Some m \<and> minAmount p \<le> amount \<and> amount \<le> m)
                 \<and> (\<exists>m. maxTerm p = Some m \<and> minTerm p \<le> termMonths \<and> termMonths \<le> m)
                 \<and> (\<exists>s. minCreditScore p = Some s \<and> s \<le> creditScore)
                 \<and> active p) catalog"
proof -
  have "eligible loanType amount termMonths creditScore =
          (\<lambda>p. type p = loanType
                 \<and> (\<exists>m. maxAmount p = Some m \<and> minAmount p \<le> amount \<and> amount \<le> m)
                 \<and> (\<exists>m. maxTerm p = Some m \<and> minTerm p \<le> termMonths \<and> termMonths \<le> m)
                 \<and> (\<exists>s. minCreditScore p = Some s \<and> s \<le> creditScore)
                 \<and> active p)"
    by (rule ext) (rule eligible_iff [OF assms])
  then show ?thesis
    by (simp add: getEligibleProducts_def)
qed

lemma eligible_as_specified:
  assumes "amount \<noteq> 0" and "termMonths \<noteq> 0" and "maxAmount p \<noteq> None" and "maxTerm p \<noteq> None"
  shows "eligible loanType amount termMonths creditScore p
     \<longleftrightarrow> withinBoundsAsSpecified loanType amount termMonths creditScore p"
  using assms
  by (auto simp: eligible_iff withinBoundsAsSpecified_def split: option.splits)

lemma getEligibleProducts_subseq:
  "subseq (getEligibleProducts catalog loanType amount termMonths creditScore) catalog"
  by (simp add: getEligibleProducts_def)

text \<open>
  Claim C3. The claim says that an absent upper bound is unbounded, and the schema
  leaves \<open>maxAmount\<close> and \<open>maxTerm\<close> optional. The query puts its fallback
  \<open>|| Number.MAX_SAFE_INTEGER\<close> on the requested amount and term instead of the
  product's bound: a product without \<open>maxAmount\<close> that meets every clause of the
  contract is not returned, and for an amount of 0 a product with the bounds 0 and
  1000000 is not returned either, because its \<open>maxAmount\<close> is compared with
  \<open>MAX_SAFE_INTEGER\<close>.
\<close>

theorem absent_upper_bound_excluded:
  "withinBoundsAsSpecified ''Mortgage'' 250000 360 700 openEndedProduct
   \<and> getEligibleProducts [openEndedProduct] ''Mortgage'' 250000 360 700 = []
   \<and> withinBoundsAsSpecified ''Mortgage'' 0 360 700 (exampleProduct 1 ''A'' [])
   \<and> getEligibleProducts [exampleProduct 1 ''A'' []] ''Mortgage'' 0 360 700 = []"
  by (simp add: getEligibleProducts_def eligible_def withinBoundsAsSpecified_def
      openEndedProduct_def exampleProduct_def or_default_def js_truthy_def
      MAX_SAFE_INTEGER_def)

subsection \<open>Ranking: sorting and ranges\<close>

lemma set_js_insert: "set (js_insert cmp x ys) = insert x (set ys)"
  by (induction ys) auto

lemma set_js_sort: "set (js_sort cmp xs) = set xs"
  by (induction xs) (simp_all add: js_sort_def set_js_insert)

lemma length_js_insert: "length (js_insert cmp x ys) = Suc (length ys)"
  by (induction ys) auto

lemma length_js_sort: "length (js_sort cmp xs) = length xs"
  by (induction xs) (simp_all add: js_sort_def length_js_insert)

lemma scores_scoreProduct [simp]: "scores (scoreProduct w rs p) = scoresOf rs p"
  by (simp add: scoreProduct_def AnalyzedProduct.extend_def ScoredProduct.fields_def)

lemma totalScore_scoreProduct [simp]:
  "totalScore (scoreProduct w rs p) = weightedTotal w (scoresOf rs p)"
  by (simp add: scoreProduct_def AnalyzedProduct.extend_def ScoredProduct.fields_def)

lemma set_rankProducts:
  "set (rankProducts aps prefs) =
     scoreProduct (normalizedWeights prefs) (findRanges aps) ` set aps"
  by (simp add: rankProducts_def Let_def set_js_sort)

lemma length_rankProducts: "length (rankProducts aps prefs) = length aps"
  by (simp add: rankProducts_def Let_def length_js_sort)

lemma product_scoreProduct [simp]: "product (scoreProduct w rs p) = product p"
  by (simp add: scoreProduct_def AnalyzedProduct.extend_def AnalyzedProduct.defs)

lemma foldl_widenRanges_interestRate:
  "r_interestRate (foldl widenRanges rs aps) =
     foldl widen (r_interestRate rs) (map interestRate aps)"
  by (induction aps arbitrary: rs) (simp_all add: widenRanges_def)

lemma foldl_widenRanges_monthlyPayment:
  "r_monthlyPayment (foldl widenRanges rs aps) =
     foldl widen (r_monthlyPayment rs) (map monthlyPayment aps)"
  by (induction aps arbitrary: rs) (simp_all add: widenRanges_def)

lemma widen_empty: "v \<noteq> NaN \<Longrightarrow> widen emptyRange v = \<lparr> lo = v, hi = v \<rparr>"
  by (cases v) (simp_all add: widen_def emptyRange_def js_min_def js_max_def)

lemma widen_same: "v \<noteq> NaN \<Longrightarrow> widen \<lparr> lo = v, hi = v \<rparr> v = \<lparr> lo = v, hi = v \<rparr>"
  by (cases v) (simp_all add: widen_def js_min_def js_max_def)

lemma foldl_widen_same:
  "v \<noteq> NaN \<Longrightarrow> \<forall>x\<in>set vs. x = v \<Longrightarrow>
     foldl widen \<lparr> lo = v, hi = v \<rparr> vs = \<lparr> lo = v, hi = v \<rparr>"
  by (induction vs) (simp_all add: widen_same)

lemma foldl_widen_shared:
  assumes "v \<noteq> NaN" and "\<forall>x\<in>set vs. x = v" and "vs \<noteq> []"
  shows "foldl widen emptyRange vs = \<lparr> lo = v, hi = v \<rparr>"
  using assms by (cases vs) (simp_all add: widen_empty foldl_widen_same)

lemma normalize_shared: "v \<noteq> NaN \<Longrightarrow> normalize x v v = Fin 0.5"
  by (simp add: normalize_def js_strict_eq_def)


text \<open>
  Claim C8. When all candidates share the same value (not \<open>NaN\<close>) of interest rate,
  or of monthly payment, so that the minimum and the maximum of that metric over the
  set are equal, the metric's term in every candidate's total score is exactly 0.5
  times its weight; the total score is the sum of the five terms.
\<close>

theorem shared_metric_contribution:
  assumes "sp \<in> set (rankProducts aps prefs)" and "v \<noteq> NaN"
  shows "totalScore sp = foldl js_add (Fin 0) (contributions (normalizedWeights prefs) (scores sp))
     \<and> ((\<forall>ap\<in>set aps. interestRate ap = v) \<longrightarrow>
          contributions (normalizedWeights prefs) (scores sp) ! 0
            = Fin (0.5 * w_interestRate (normalizedWeights prefs)))
     \<and> ((\<forall>ap\<in>set aps. monthlyPayment ap = v) \<longrightarrow>
          contributions (normalizedWeights prefs) (scores sp) ! 1
            = Fin (0.5 * w_monthlyPayment (normalizedWeights prefs)))"
proof -
  from assms(1) obtain p where p: "p \<in> set aps"
    and sp: "sp = scoreProduct (normalizedWeights prefs) (findRanges aps) p"
    by (auto simp: set_rankProducts)
  from p have ne: "aps \<noteq> []" by auto
  have total: "totalScore sp =
      foldl js_add (Fin 0) (contributions (normalizedWeights prefs) (scores sp))"
    by (simp add: sp weightedTotal_def)
  have rate: "contributions (normalizedWeights prefs) (scores sp) ! 0
            = Fin (0.5 * w_interestRate (normalizedWeights prefs))"
    if "\<forall>ap\<in>set aps. interestRate ap = v"
  proof -
    have "r_interestRate (findRanges aps) = \<lparr> lo = v, hi = v \<rparr>"
      unfolding findRanges_def foldl_widenRanges_interestRate
      using that ne assms(2)
      by (simp add: initialRanges_def foldl_widen_shared)
    then show ?thesis
      using assms(2) by (simp add: sp contributions_def scoresOf_def normalize_shared)
  qed
  have payment: "contributions (normalizedWeights prefs) (scores sp) ! 1
            = Fin (0.5 * w_monthlyPayment (normalizedWeights prefs))"
    if "\<forall>ap\<in>set aps. monthlyPayment ap = v"
  proof -
    have "r_monthlyPayment (findRanges aps) = \<lparr> lo = v, hi = v \<rparr>"
      unfolding findRanges_def foldl_widenRanges_monthlyPayment
      using that ne assms(2)
      by (simp add: initialRanges_def foldl_widen_shared)
    then show ?thesis
      using assms(2) by (simp add: sp contributions_def scoresOf_def normalize_shared)
  qed
  from total rate payment show ?thesis by blast
qed

lemma sameRate_values:
  "map interestRate sameRateProducts = [Fin 5, Fin 5]"
  by (simp add: sameRateProducts_def calculateMetrics_def getLatestRate_def observation_def exampleProduct_def
      analyzeProduct_def Let_def)

theorem shared_metric_contribution_witness:
  "hd (rankProducts sameRateProducts noPreferences)
      \<in> set (rankProducts sameRateProducts noPreferences)
   \<and> Fin 5 \<noteq> NaN
   \<and> list_all (\<lambda>ap. interestRate ap = Fin 5) sameRateProducts
   \<and> contributions (normalizedWeights noPreferences)
        (scores (hd (rankProducts sameRateProducts noPreferences))) ! 0 = Fin (1 / 6)"
proof -
  have "sameRateProducts \<noteq> []"
    using sameRate_values by auto
  then have "rankProducts sameRateProducts noPreferences \<noteq> []"
    using set_rankProducts [of sameRateProducts noPreferences] by auto
  then have mem: "hd (rankProducts sameRateProducts noPreferences)
      \<in> set (rankProducts sameRateProducts noPreferences)"
    by simp
  have shared: "\<forall>ap\<in>set sameRateProducts. interestRate ap = Fin 5"
    by (simp add: sameRateProducts_def calculateMetrics_def getLatestRate_def observation_def exampleProduct_def
      analyzeProduct_def Let_def)
  have w: "w_interestRate (normalizedWeights noPreferences) = 1 / 3"
    by (simp add: normalizedWeights_def initialWeights_def noPreferences_def totalWeight_def
        weightValues_def)
  from shared_metric_contribution [OF mem, of "Fin 5"] shared w
  show ?thesis
    using mem by (simp add: list_all_iff)
qed


subsection \<open>The result of an analysis\<close>

lemma js_error_is [simp]: "(e = TypeError) = True"
  by (cases e) simp

lemma positionedFrom_set:
  "(i, x) \<in> set (positionedFrom k xs) \<Longrightarrow> k \<le> i \<and> i - k < length xs \<and> x = xs ! (i - k)"
proof (induction xs arbitrary: k)
  case Nil
  then show ?case by simp
next
  case (Cons y ys)
  show ?case
  proof (cases "(i, x) = (k, y)")
    case True
    then show ?thesis by simp
  next
    case False
    with Cons.prems have "(i, x) \<in> set (positionedFrom (Suc k) ys)" by auto
    from Cons.IH [OF this] show ?thesis
      by (auto simp: nth_Cons' Suc_diff_le)
  qed
qed

lemma same_position:
  "(i, x) \<in> set (positionedFrom k xs) \<Longrightarrow> (i, y) \<in> set (positionedFrom k xs) \<Longrightarrow> x = y"
  using positionedFrom_set by metis

lemma first_positioned:
  "xs \<noteq> [] \<Longrightarrow> \<exists>x. first (positionedFrom 0 xs) = Some (0, x) \<and> first xs = Some x
     \<and> (0, x) \<in> set (positionedFrom 0 xs)"
  by (cases xs) (simp_all add: first_def)

lemma lowestBy_Some:
  assumes "xs \<noteq> []"
  shows "\<exists>i p. lowestBy metric xs = Some (i, p) \<and> (i, p) \<in> set (positionedFrom 0 xs)"
proof -
  let ?sorted = "js_sort (\<lambda>a b. js_sub (metric (snd a)) (metric (snd b))) (positionedFrom 0 xs)"
  from assms have "positionedFrom 0 xs \<noteq> []" by (cases xs) simp_all
  then have "?sorted \<noteq> []"
    using length_js_sort [of _ "positionedFrom 0 xs"] by (metis length_0_conv)
  then obtain q rest where q: "?sorted = q # rest" by (cases ?sorted) auto
  then have "q \<in> set ?sorted" by simp
  then have "q \<in> set (positionedFrom 0 xs)" by (simp add: set_js_sort)
  with q show ?thesis
    by (cases q) (auto simp: lowestBy_def first_def)
qed

text \<open>
  \<open>generateRecommendations\<close> throws exactly when one of the recommended products has
  no institution.
\<close>

lemma generateRecommendations_throws:
  "generateRecommendations ranked = Inl TypeError
     \<longleftrightarrow> \<not> list_all hasInstitution (recommendedProducts ranked)"
proof (cases "ranked = []")
  case True
  then show ?thesis
    by (simp add: generateRecommendations_def recommendedProducts_def first_def)
next
  case False
  from first_positioned [OF False] obtain best where
    best: "first (positionedFrom 0 ranked) = Some (0, best)" "first ranked = Some best"
      "(0, best) \<in> set (positionedFrom 0 ranked)"
    by blast
  from lowestBy_Some [OF False, of interestRate] obtain ir lowRate where
    lowRate: "lowestBy interestRate ranked = Some (ir, lowRate)"
      "(ir, lowRate) \<in> set (positionedFrom 0 ranked)"
    by blast
  from lowestBy_Some [OF False, of monthlyPayment] obtain ip lowPayment where
    lowPayment: "lowestBy monthlyPayment ranked = Some (ip, lowPayment)"
      "(ip, lowPayment) \<in> set (positionedFrom 0 ranked)"
    by blast
  have rate_same: "lowRate = best" if "ir = 0"
    using that same_position [OF lowRate(2)] best(3) by simp
  have payment_same_best: "lowPayment = best" if "ip = 0"
    using that same_position [OF lowPayment(2)] best(3) by simp
  have payment_same_rate: "lowPayment = lowRate" if "ip = ir"
    using that same_position [OF lowPayment(2)] lowRate(2) by simp
  have recommended: "recommendedProducts ranked = [best, lowRate, lowPayment]"
    by (simp add: recommendedProducts_def best lowRate lowPayment)
  show ?thesis
    using False rate_same payment_same_best payment_same_rate
    by (auto simp: generateRecommendations_def recommended best lowRate lowPayment
        sentenceAbout_def institutionName_def hasInstitution_def split: option.splits)
qed

lemma generateRecommendations_returns:
  "(\<exists>recs. generateRecommendations ranked = Inr recs)
     \<longleftrightarrow> list_all hasInstitution (recommendedProducts ranked)"
proof -
  have "(\<exists>recs. generateRecommendations ranked = Inr recs)
      \<longleftrightarrow> generateRecommendations ranked \<noteq> Inl TypeError"
    by (cases "generateRecommendations ranked") auto
  then show ?thesis
    by (simp add: generateRecommendations_throws)
qed

lemma recommendedProducts_subset: "set (recommendedProducts ranked) \<subseteq> set ranked"
proof (cases "ranked = []")
  case True
  then show ?thesis by (simp add: recommendedProducts_def first_def)
next
  case False
  from first_positioned [OF False] lowestBy_Some [OF False, of interestRate]
    lowestBy_Some [OF False, of monthlyPayment]
  obtain best ir lowRate ip lowPayment where
    "first ranked = Some best" "(0, best) \<in> set (positionedFrom 0 ranked)"
    "lowestBy interestRate ranked = Some (ir, lowRate)"
    "(ir, lowRate) \<in> set (positionedFrom 0 ranked)"
    "lowestBy monthlyPayment ranked = Some (ip, lowPayment)"
    "(ip, lowPayment) \<in> set (positionedFrom 0 ranked)"
    by blast
  then show ?thesis
    using positionedFrom_set [of _ _ 0 ranked]
    by (auto simp: recommendedProducts_def) (metis diff_zero nth_mem)+
qed

text \<open>
  Claim C2, as stated, fails: with \<open>preferences: null\<close> and a product that is eligible,
  the call returns neither object but throws a \<open>TypeError\<close>, because the default \<open>{}\<close>
  does not replace \<open>null\<close> and \<open>rankProducts\<close> reads a flag of it; and so it does when
  the best product's institution is not in the collection, because the
  recommendation text reads its name.
\<close>

theorem null_preferences_counterexample:
  "getEligibleProducts [exampleProduct 1 ''A'' []] ''Mortgage'' 250000 360 700
     = [exampleProduct 1 ''A'' []]
   \<and> analyzeLoanOptions [exampleProduct 1 ''A'' []] [observation 1 10 4.5 600 850] fixedDraws
       ''Mortgage'' 250000 360 None PreferencesNull = Inl TypeError
   \<and> getEligibleProducts [orphanProduct] ''Mortgage'' 250000 360 700 = [orphanProduct]
   \<and> analyzeLoanOptions [orphanProduct] [observation 1 10 4.5 600 850] fixedDraws
       ''Mortgage'' 250000 360 None PreferencesAbsent = Inl TypeError"
proof -
  have eligible_A: "getEligibleProducts [exampleProduct 1 ''A'' []] ''Mortgage'' 250000 360 700
     = [exampleProduct 1 ''A'' []]"
    by (simp add: getEligibleProducts_def eligible_def exampleProduct_def or_default_def
        js_truthy_def MAX_SAFE_INTEGER_def)
  have eligible_orphan: "getEligibleProducts [orphanProduct] ''Mortgage'' 250000 360 700
     = [orphanProduct]"
    by (simp add: getEligibleProducts_def eligible_def orphanProduct_def exampleProduct_def
        or_default_def js_truthy_def MAX_SAFE_INTEGER_def)
  have null: "analyzeLoanOptions [exampleProduct 1 ''A'' []] [observation 1 10 4.5 600 850]
       fixedDraws ''Mortgage'' 250000 360 None PreferencesNull = Inl TypeError"
    unfolding analyzeLoanOptions_def Let_def option.case eligible_A
    by (simp add: rankProductsFor_def)
  have "map product (calculateMetrics [observation 1 10 4.5 600 850] fixedDraws [orphanProduct]
          250000 360) = [orphanProduct]"
    by (simp add: calculateMetrics_products getLatestRate_def observation_def orphanProduct_def
        exampleProduct_def)
  then obtain ap where ap: "calculateMetrics [observation 1 10 4.5 600 850] fixedDraws
      [orphanProduct] 250000 360 = [ap]" and "product ap = orphanProduct"
    by auto
  then have "\<not> list_all hasInstitution (recommendedProducts (rankProducts [ap] noPreferences))"
    by (simp add: rankProducts_def Let_def js_sort_def recommendedProducts_def first_def
        lowestBy_def hasInstitution_def orphanProduct_def)
  then have "generateRecommendations (rankProducts [ap] noPreferences) = Inl TypeError"
    by (simp add: generateRecommendations_throws)
  then have "analyzeLoanOptions [orphanProduct] [observation 1 10 4.5 600 850] fixedDraws
       ''Mortgage'' 250000 360 None PreferencesAbsent = Inl TypeError"
    unfolding analyzeLoanOptions_def Let_def option.case eligible_orphan ap
    by (simp add: rankProductsFor_def)
  with eligible_A eligible_orphan null show ?thesis by simp
qed

lemma recommended_have_institution:
  assumes "list_all (\<lambda>ap. institution (product ap) \<noteq> None) analyzed"
  shows "list_all hasInstitution (recommendedProducts (rankProducts analyzed p))"
proof -
  have "hasInstitution sp" if "sp \<in> set (rankProducts analyzed p)" for sp
    using that assms by (auto simp: set_rankProducts hasInstitution_def list_all_iff)
  then show ?thesis
    using recommendedProducts_subset [of "rankProducts analyzed p"]
    by (auto simp: list_all_iff)
qed

text \<open>
  Claim C2, amended. For every input, \<open>analyzeLoanOptions\<close> returns the object with
  \<open>success: false\<close>, the message and the alternatives that \<open>suggestAlternatives\<close> finds
  exactly when the eligibility filter returns no product. When the filter returns
  products, the preferences are not \<open>null\<close> and every analysed product has its
  institution, it returns the object with \<open>success: true\<close>, the recommendations, the
  first three of the ranking as top options, the ranking, the educational content
  and the insights.
\<close>

theorem analyze_result_shape:
  "(let creditScore = (case creditScoreArg of None \<Rightarrow> 700 | Some s \<Rightarrow> s);
        eligibleProducts = getEligibleProducts catalog loanType amount termMonths creditScore;
        analyzed = calculateMetrics rates rnd eligibleProducts amount termMonths;
        result = analyzeLoanOptions catalog rates rnd loanType amount termMonths creditScoreArg
                   preferencesArg
    in (result = Inr (NoEligibleProducts noEligibleMessage
                   (suggestAlternatives catalog loanType amount termMonths creditScore)))
         = (eligibleProducts = [])
       \<and> (\<exists>r. result = Inr r \<and> \<not> success r) = (eligibleProducts = [])
       \<and> (eligibleProducts \<noteq> [] \<longrightarrow> preferencesArg \<noteq> PreferencesNull \<longrightarrow>
            list_all (\<lambda>ap. institution (product ap) \<noteq> None) analyzed \<longrightarrow>
            (\<exists>preferences recs ranked.
                destructuredPreferences preferencesArg = Some preferences
              \<and> ranked = rankProducts analyzed preferences
              \<and> result = Inr (Analysis recs (take 3 ranked) ranked
                                (getEducationalContent loanType) (generateInsights ranked))
              \<and> success (Analysis recs (take 3 ranked) ranked
                           (getEducationalContent loanType) (generateInsights ranked)))))"
proof -
  define creditScore where "creditScore = (case creditScoreArg of None \<Rightarrow> 700 | Some s \<Rightarrow> s)"
  define eligibleProducts where
    "eligibleProducts = getEligibleProducts catalog loanType amount termMonths creditScore"
  define analyzed where
    "analyzed = calculateMetrics rates rnd eligibleProducts amount termMonths"
  define result where
    "result = analyzeLoanOptions catalog rates rnd loanType amount termMonths creditScoreArg
                preferencesArg"
  have unfolded: "result =
      (if eligibleProducts = []
       then Inr (NoEligibleProducts noEligibleMessage
                   (suggestAlternatives catalog loanType amount termMonths creditScore))
       else case rankProductsFor analyzed (destructuredPreferences preferencesArg) of
              Inl e \<Rightarrow> Inl e
            | Inr rankedProducts \<Rightarrow>
                (case generateRecommendations rankedProducts of
                   Inl e \<Rightarrow> Inl e
                 | Inr recommended \<Rightarrow>
                     Inr (Analysis recommended (take 3 rankedProducts) rankedProducts
                            (getEducationalContent loanType)
                            (generateInsights rankedProducts))))"
    by (simp add: result_def analyzeLoanOptions_def Let_def eligibleProducts_def
        creditScore_def analyzed_def)
  have failure: "(result = Inr (NoEligibleProducts noEligibleMessage
                   (suggestAlternatives catalog loanType amount termMonths creditScore)))
         = (eligibleProducts = [])"
    by (auto simp: unfolded split: sum.splits)
  have not_success: "(\<exists>r. result = Inr r \<and> \<not> success r) = (eligibleProducts = [])"
    by (auto simp: unfolded split: sum.splits)
  have returns: "\<exists>preferences recs ranked.
                destructuredPreferences preferencesArg = Some preferences
              \<and> ranked = rankProducts analyzed preferences
              \<and> result = Inr (Analysis recs (take 3 ranked) ranked
                                (getEducationalContent loanType) (generateInsights ranked))
              \<and> success (Analysis recs (take 3 ranked) ranked
                           (getEducationalContent loanType) (generateInsights ranked))"
    if nonempty: "eligibleProducts \<noteq> []" and not_null: "preferencesArg \<noteq> PreferencesNull"
      and attached: "list_all (\<lambda>ap. institution (product ap) \<noteq> None) analyzed"
  proof -
    from not_null obtain p where p: "destructuredPreferences preferencesArg = Some p"
      by (cases preferencesArg) simp_all
    from recommended_have_institution [OF attached, of p]
    obtain recs where recs: "generateRecommendations (rankProducts analyzed p) = Inr recs"
      using generateRecommendations_returns by blast
    have "result = Inr (Analysis recs (take 3 (rankProducts analyzed p))
                     (rankProducts analyzed p) (getEducationalContent loanType)
                     (generateInsights (rankProducts analyzed p)))"
      using nonempty by (simp add: unfolded p rankProductsFor_def recs)
    with p show ?thesis by simp
  qed
  from failure not_success returns show ?thesis
    unfolding Let_def result_def analyzed_def eligibleProducts_def creditScore_def by blast
qed

theorem analyze_result_shape_witness:
  "getEligibleProducts [exampleProduct 1 ''A'' []] ''Mortgage'' 250000 360 700
     = [exampleProduct 1 ''A'' []]
   \<and> PreferencesAbsent \<noteq> PreferencesNull
   \<and> list_all (\<lambda>ap. institution (product ap) \<noteq> None)
        (calculateMetrics [observation 1 10 4.5 600 850] fixedDraws
           [exampleProduct 1 ''A'' []] 250000 360)
   \<and> (\<exists>result.
         analyzeLoanOptions [exampleProduct 1 ''A'' []] [observation 1 10 4.5 600 850]
           fixedDraws ''Mortgage'' 250000 360 None PreferencesAbsent = Inr result
         \<and> success result \<and> length (allOptions result) = 1)"
proof -
  have eligible_A: "getEligibleProducts [exampleProduct 1 ''A'' []] ''Mortgage'' 250000 360 700
     = [exampleProduct 1 ''A'' []]"
    by (simp add: getEligibleProducts_def eligible_def exampleProduct_def or_default_def
        js_truthy_def MAX_SAFE_INTEGER_def)
  have products: "map product (calculateMetrics [observation 1 10 4.5 600 850] fixedDraws
          [exampleProduct 1 ''A'' []] 250000 360) = [exampleProduct 1 ''A'' []]"
    by (simp add: calculateMetrics_products getLatestRate_def observation_def
        exampleProduct_def)
  then obtain ap where ap: "calculateMetrics [observation 1 10 4.5 600 850] fixedDraws
      [exampleProduct 1 ''A'' []] 250000 360 = [ap]"
    and product_ap: "product ap = exampleProduct 1 ''A'' []"
    by auto
  have attached: "list_all (\<lambda>ap. institution (product ap) \<noteq> None)
        (calculateMetrics [observation 1 10 4.5 600 850] fixedDraws
           [exampleProduct 1 ''A'' []] 250000 360)"
    unfolding ap by (simp add: product_ap exampleProduct_def)
  from analyze_result_shape [of "None" "[exampleProduct 1 ''A'' []]" "''Mortgage''" 250000 360
      "[observation 1 10 4.5 600 850]" fixedDraws PreferencesAbsent]
  have "\<exists>recs ranked.
          ranked = rankProducts (calculateMetrics [observation 1 10 4.5 600 850] fixedDraws
                     [exampleProduct 1 ''A'' []] 250000 360) noPreferences
        \<and> analyzeLoanOptions [exampleProduct 1 ''A'' []] [observation 1 10 4.5 600 850]
            fixedDraws ''Mortgage'' 250000 360 None PreferencesAbsent
            = Inr (Analysis recs (take 3 ranked) ranked (getEducationalContent ''Mortgage'')
                     (generateInsights ranked))"
    unfolding Let_def option.case eligible_A using attached by auto
  moreover have "length (calculateMetrics [observation 1 10 4.5 600 850] fixedDraws
      [exampleProduct 1 ''A'' []] 250000 360) = 1"
    unfolding ap by simp
  ultimately have "\<exists>result.
         analyzeLoanOptions [exampleProduct 1 ''A'' []] [observation 1 10 4.5 600 850]
           fixedDraws ''Mortgage'' 250000 360 None PreferencesAbsent = Inr result
         \<and> success result \<and> length (allOptions result) = 1"
    by (auto simp: length_rankProducts)
  with eligible_A attached show ?thesis by simp
qed

subsection \<open>A payment that is not a number\<close>

lemma js_add_NaN_right [simp]: "js_add x NaN = NaN"
  by (cases x) simp_all

lemma js_mul_NaN_right [simp]: "js_mul x NaN = NaN"
  by (cases x) simp_all

lemma js_div_NaN_right [simp]: "js_div x NaN = NaN"
  by (cases x) simp_all

lemma js_sub_NaN [simp]: "js_sub x NaN = NaN" "js_sub NaN y = NaN"
  by (simp_all add: js_sub_def)

lemma widen_NaN: "widen r NaN = \<lparr> lo = NaN, hi = NaN \<rparr>"
  by (simp add: widen_def js_min_def js_max_def)

lemma widen_from_NaN: "widen \<lparr> lo = NaN, hi = NaN \<rparr> v = \<lparr> lo = NaN, hi = NaN \<rparr>"
  by (simp add: widen_def js_min_def js_max_def)

lemma foldl_widen_from_NaN:
  "foldl widen \<lparr> lo = NaN, hi = NaN \<rparr> vs = \<lparr> lo = NaN, hi = NaN \<rparr>"
  by (induction vs) (simp_all add: widen_from_NaN)

lemma foldl_widen_NaN:
  "NaN \<in> set vs \<Longrightarrow> foldl widen r vs = \<lparr> lo = NaN, hi = NaN \<rparr>"
  by (induction vs arbitrary: r) (auto simp: widen_NaN foldl_widen_from_NaN)

lemma foldl_js_add_NaN: "foldl js_add NaN xs = NaN"
  by (induction xs) simp_all

lemma NaN_payment_score:
  assumes "c \<in> set aps" and "monthlyPayment c = NaN"
  shows "weightedTotal w (scoresOf (findRanges aps) p) = NaN"
proof -
  have "NaN \<in> set (map monthlyPayment aps)"
    using assms by force
  then have "r_monthlyPayment (findRanges aps) = \<lparr> lo = NaN, hi = NaN \<rparr>"
    by (simp add: findRanges_def foldl_widenRanges_monthlyPayment foldl_widen_NaN)
  then have "s_monthlyPayment (scoresOf (findRanges aps) p) = NaN"
    by (simp add: scoresOf_def normalize_def js_strict_eq_def)
  then show ?thesis
    by (simp add: weightedTotal_def contributions_def foldl_js_add_NaN)
qed

lemma js_insert_not_after:
  "(\<forall>y\<in>set ys. \<not> js_less (Fin 0) (cmp x y)) \<Longrightarrow> js_insert cmp x ys = x # ys"
  by (cases ys) simp_all

lemma js_sort_unordered:
  "(\<forall>x\<in>set xs. \<forall>y\<in>set xs. \<not> js_less (Fin 0) (cmp x y)) \<Longrightarrow> js_sort cmp xs = xs"
proof (induction xs)
  case Nil
  show ?case by (simp add: js_sort_def)
next
  case (Cons x xs)
  then have "js_sort cmp xs = xs" by simp
  then show ?case
    using Cons.prems by (simp add: js_sort_def js_insert_not_after)
qed

lemma NaN_payment_ranking:
  assumes "c \<in> set aps" and "monthlyPayment c = NaN"
  shows "rankProducts aps prefs = map (scoreProduct (normalizedWeights prefs) (findRanges aps)) aps"
    and "sp \<in> set (rankProducts aps prefs) \<Longrightarrow> totalScore sp = NaN"
proof -
  let ?scored = "map (scoreProduct (normalizedWeights prefs) (findRanges aps)) aps"
  have all_NaN: "totalScore x = NaN" if "x \<in> set ?scored" for x
    using that NaN_payment_score [OF assms] by auto
  have "js_sort byTotalScoreDesc ?scored = ?scored"
    by (rule js_sort_unordered) (simp add: byTotalScoreDesc_def NaN_payment_score [OF assms])
  then show "rankProducts aps prefs = ?scored"
    by (simp add: rankProducts_def Let_def)
  then show "sp \<in> set (rankProducts aps prefs) \<Longrightarrow> totalScore sp = NaN"
    using all_NaN by simp
qed


subsection \<open>Ranking of finite metrics\<close>

lemma is_finite_iff: "is_finite x \<longleftrightarrow> (\<exists>a. x = Fin a)"
  by (cases x) simp_all

lemma widen_Fin:
  "widen \<lparr> lo = Fin m, hi = Fin M \<rparr> (Fin x) = \<lparr> lo = Fin (min m x), hi = Fin (max M x) \<rparr>"
  by (simp add: widen_def)

lemma foldl_widen_Fin:
  assumes "\<forall>v\<in>set vs. is_finite v" and "m \<le> M"
  shows "\<exists>m' M'. foldl widen \<lparr> lo = Fin m, hi = Fin M \<rparr> vs = \<lparr> lo = Fin m', hi = Fin M' \<rparr>
           \<and> m' \<le> M'"
  using assms
proof (induction vs arbitrary: m M)
  case Nil
  then show ?case by simp
next
  case (Cons v vs)
  then obtain x where v: "v = Fin x" by (auto simp: is_finite_iff)
  have "min m x \<le> max M x" using Cons.prems(2) by simp
  with Cons.IH [of "min m x" "max M x"] Cons.prems(1) show ?case
    by (simp add: v widen_Fin)
qed

lemma foldl_widen_finite:
  assumes "\<forall>v\<in>set vs. is_finite v" and "vs \<noteq> []"
  shows "\<exists>m M. foldl widen emptyRange vs = \<lparr> lo = Fin m, hi = Fin M \<rparr> \<and> m \<le> M"
proof -
  from assms obtain x rest where vs: "vs = Fin x # rest"
    by (cases vs) (auto simp: is_finite_iff)
  have "widen emptyRange (Fin x) = \<lparr> lo = Fin x, hi = Fin x \<rparr>"
    by (simp add: widen_empty)
  with foldl_widen_Fin [of rest x x] assms(1) show ?thesis
    by (simp add: vs)
qed

lemma cost_score_Fin:
  "js_sub (Fin 1) (normalize (Fin x) (Fin m) (Fin M)) = Fin (costScore x m M)"
  by (simp add: normalize_def js_strict_eq_def costScore_def)

lemma costScore_antimono: "m \<le> M \<Longrightarrow> x \<le> y \<Longrightarrow> costScore y m M \<le> costScore x m M"
  by (simp add: costScore_def divide_right_mono)

lemma normalizedWeights_pos:
  "0 < w_interestRate (normalizedWeights prefs)"
  "0 < w_monthlyPayment (normalizedWeights prefs)"
  "0 < w_customerService (normalizedWeights prefs)"
  "0 < w_flexibility (normalizedWeights prefs)"
  "0 < w_approvalLikelihood (normalizedWeights prefs)"
proof -
  have "0 < w_interestRate (initialWeights prefs)" "0 < w_monthlyPayment (initialWeights prefs)"
    "0 < w_customerService (initialWeights prefs)" "0 < w_flexibility (initialWeights prefs)"
    "0 < w_approvalLikelihood (initialWeights prefs)"
    by (simp_all add: initialWeights_def)
  then show "0 < w_interestRate (normalizedWeights prefs)"
    "0 < w_monthlyPayment (normalizedWeights prefs)"
    "0 < w_customerService (normalizedWeights prefs)"
    "0 < w_flexibility (normalizedWeights prefs)"
    "0 < w_approvalLikelihood (normalizedWeights prefs)"
    using totalWeight_pos [of prefs] by (simp_all add: normalizedWeights_def Let_def)
qed

lemma finite_total:
  assumes "\<forall>p\<in>set aps. finiteMetrics p" and "aps \<noteq> []"
  shows "\<exists>m M m' M'. m \<le> M \<and> m' \<le> M' \<and>
     (\<forall>q. finiteMetrics q \<longrightarrow>
       weightedTotal w (scoresOf (findRanges aps) q) =
       Fin (0 + costScore (num (interestRate q)) m M * w_interestRate w
            + costScore (num (monthlyPayment q)) m' M' * w_monthlyPayment w
            + num (customerService q) * w_customerService w
            + num (flexibility q) * w_flexibility w
            + num (approvalLikelihood q) * w_approvalLikelihood w))"
proof -
  have "\<forall>v\<in>set (map interestRate aps). is_finite v"
    using assms(1) by (simp add: finiteMetrics_def)
  then obtain m M where r1: "r_interestRate (findRanges aps) = \<lparr> lo = Fin m, hi = Fin M \<rparr>"
    and mM: "m \<le> M"
    using foldl_widen_finite [of "map interestRate aps"] assms(2)
    by (auto simp: findRanges_def foldl_widenRanges_interestRate initialRanges_def)
  have "\<forall>v\<in>set (map monthlyPayment aps). is_finite v"
    using assms(1) by (simp add: finiteMetrics_def)
  then obtain m' M' where r2: "r_monthlyPayment (findRanges aps) = \<lparr> lo = Fin m', hi = Fin M' \<rparr>"
    and mM': "m' \<le> M'"
    using foldl_widen_finite [of "map monthlyPayment aps"] assms(2)
    by (auto simp: findRanges_def foldl_widenRanges_monthlyPayment initialRanges_def)
  have "weightedTotal w (scoresOf (findRanges aps) q) =
       Fin (0 + costScore (num (interestRate q)) m M * w_interestRate w
            + costScore (num (monthlyPayment q)) m' M' * w_monthlyPayment w
            + num (customerService q) * w_customerService w
            + num (flexibility q) * w_flexibility w
            + num (approvalLikelihood q) * w_approvalLikelihood w)"
    if "finiteMetrics q" for q
  proof -
    from that obtain a b c d e where
      "interestRate q = Fin a" "monthlyPayment q = Fin b" "customerService q = Fin c"
      "flexibility q = Fin d" "approvalLikelihood q = Fin e"
      by (auto simp: finiteMetrics_def is_finite_iff)
    then show ?thesis
      by (simp add: weightedTotal_def contributions_def scoresOf_def r1 r2 cost_score_Fin)
  qed
  with mM mM' show ?thesis by blast
qed


lemma dominance_total_score:
  assumes fin: "\<forall>p\<in>set aps. finiteMetrics p" and a: "a \<in> set aps" and b: "b \<in> set aps"
    and rate: "num (interestRate a) \<le> num (interestRate b)"
    and payment: "num (monthlyPayment a) \<le> num (monthlyPayment b)"
    and service: "num (customerService b) \<le> num (customerService a)"
    and flex: "num (flexibility b) \<le> num (flexibility a)"
    and approval: "num (approvalLikelihood b) \<le> num (approvalLikelihood a)"
  shows "\<exists>sa sb. weightedTotal (normalizedWeights prefs) (scoresOf (findRanges aps) a) = Fin sa
           \<and> weightedTotal (normalizedWeights prefs) (scoresOf (findRanges aps) b) = Fin sb
           \<and> sb \<le> sa
           \<and> (num (customerService b) < num (customerService a) \<longrightarrow> sb < sa)"
proof -
  let ?w = "normalizedWeights prefs"
  from a have ne: "aps \<noteq> []" by auto
  from finite_total [OF fin ne, of ?w] obtain m M m' M' where mM: "m \<le> M" and mM': "m' \<le> M'"
    and total: "\<And>q. finiteMetrics q \<Longrightarrow>
       weightedTotal ?w (scoresOf (findRanges aps) q) =
       Fin (0 + costScore (num (interestRate q)) m M * w_interestRate ?w
            + costScore (num (monthlyPayment q)) m' M' * w_monthlyPayment ?w
            + num (customerService q) * w_customerService ?w
            + num (flexibility q) * w_flexibility ?w
            + num (approvalLikelihood q) * w_approvalLikelihood ?w)"
    by blast
  note pos = normalizedWeights_pos [of prefs]
  have t1: "costScore (num (interestRate b)) m M * w_interestRate ?w
      \<le> costScore (num (interestRate a)) m M * w_interestRate ?w"
    using costScore_antimono [OF mM rate] pos(1) by (simp add: mult_right_mono)
  have t2: "costScore (num (monthlyPayment b)) m' M' * w_monthlyPayment ?w
      \<le> costScore (num (monthlyPayment a)) m' M' * w_monthlyPayment ?w"
    using costScore_antimono [OF mM' payment] pos(2) by (simp add: mult_right_mono)
  have t3: "num (customerService b) * w_customerService ?w
      \<le> num (customerService a) * w_customerService ?w"
    using service pos(3) by (simp add: mult_right_mono)
  have t3': "num (customerService b) * w_customerService ?w
      < num (customerService a) * w_customerService ?w"
    if "num (customerService b) < num (customerService a)"
    using that pos(3) by simp
  have t4: "num (flexibility b) * w_flexibility ?w \<le> num (flexibility a) * w_flexibility ?w"
    using flex pos(4) by (simp add: mult_right_mono)
  have t5: "num (approvalLikelihood b) * w_approvalLikelihood ?w
      \<le> num (approvalLikelihood a) * w_approvalLikelihood ?w"
    using approval pos(5) by (simp add: mult_right_mono)
  from fin a b have "finiteMetrics a" "finiteMetrics b" by auto
  then show ?thesis
    using total [of a] total [of b] t1 t2 t3 t3' t4 t5 by auto
qed

lemma js_insert_sorted:
  assumes "is_finite (totalScore x)" and "\<forall>y\<in>set ys. is_finite (totalScore y)"
    and "sorted_wrt (\<lambda>u v. num (totalScore v) \<le> num (totalScore u)) ys"
  shows "sorted_wrt (\<lambda>u v. num (totalScore v) \<le> num (totalScore u))
           (js_insert byTotalScoreDesc x ys)"
  using assms
proof (induction ys)
  case Nil
  then show ?case by simp
next
  case (Cons y ys)
  from Cons.prems obtain sx sy where s: "totalScore x = Fin sx" "totalScore y = Fin sy"
    by (auto simp: is_finite_iff)
  show ?case
  proof (cases "js_less (Fin 0) (byTotalScoreDesc x y)")
    case True
    then have "sx < sy" by (simp add: byTotalScoreDesc_def s)
    with True Cons show ?thesis
      by (auto simp: s set_js_insert)
  next
    case False
    then have "sy \<le> sx" by (simp add: byTotalScoreDesc_def s)
    with False Cons.prems show ?thesis
      by (fastforce simp: s)
  qed
qed

lemma js_sort_sorted:
  assumes "\<forall>x\<in>set xs. is_finite (totalScore x)"
  shows "sorted_wrt (\<lambda>u v. num (totalScore v) \<le> num (totalScore u))
           (js_sort byTotalScoreDesc xs)"
  using assms
proof (induction xs)
  case Nil
  show ?case by (simp add: js_sort_def)
next
  case (Cons x xs)
  then have "sorted_wrt (\<lambda>u v. num (totalScore v) \<le> num (totalScore u))
           (js_insert byTotalScoreDesc x (js_sort byTotalScoreDesc xs))"
    by (intro js_insert_sorted) (simp_all add: set_js_sort)
  then show ?case by (simp add: js_sort_def)
qed

text \<open>
  The ranking on numbers. In a list whose candidates all have finite metrics, a
  candidate \<open>a\<close> that is at least as good as \<open>b\<close> on each of the five weighted metrics
  has a total score at least that of \<open>b\<close>; if it is also strictly better on customer
  service, its score is strictly greater and it stands before \<open>b\<close> in the ranking.
\<close>

lemma dominance_ranking:
  assumes fin: "\<forall>p\<in>set aps. finiteMetrics p" and a: "a \<in> set aps" and b: "b \<in> set aps"
    and rate: "num (interestRate a) \<le> num (interestRate b)"
    and payment: "num (monthlyPayment a) \<le> num (monthlyPayment b)"
    and service: "num (customerService b) < num (customerService a)"
    and flex: "num (flexibility b) \<le> num (flexibility a)"
    and approval: "num (approvalLikelihood b) \<le> num (approvalLikelihood a)"
  shows "\<exists>i j. i < j \<and> j < length (rankProducts aps prefs)
           \<and> rankProducts aps prefs ! i
               = scoreProduct (normalizedWeights prefs) (findRanges aps) a
           \<and> rankProducts aps prefs ! j
               = scoreProduct (normalizedWeights prefs) (findRanges aps) b"
proof -
  let ?w = "normalizedWeights prefs" and ?r = "findRanges aps"
  let ?ranked = "rankProducts aps prefs"
  let ?le = "\<lambda>u v. num (totalScore v) \<le> num (totalScore u)"
  from a have ne: "aps \<noteq> []" by auto
  have finite_scored: "is_finite (totalScore x)" if "x \<in> set (map (scoreProduct ?w ?r) aps)" for x
  proof -
    from that obtain q where "q \<in> set aps" "x = scoreProduct ?w ?r q" by auto
    with finite_total [OF fin ne, of ?w] fin show ?thesis
      by (auto simp: is_finite_iff)
  qed
  have sorted: "sorted_wrt ?le ?ranked"
    unfolding rankProducts_def Let_def
    by (rule js_sort_sorted) (use finite_scored in blast)
  from dominance_total_score [OF fin a b rate payment less_imp_le [OF service] flex approval,
      of prefs] service
  obtain sa sb where sa: "totalScore (scoreProduct ?w ?r a) = Fin sa"
    and sb: "totalScore (scoreProduct ?w ?r b) = Fin sb" and less: "sb < sa"
    by auto
  from a b have "scoreProduct ?w ?r a \<in> set ?ranked" "scoreProduct ?w ?r b \<in> set ?ranked"
    by (simp_all add: set_rankProducts)
  then obtain i j where i: "i < length ?ranked" "?ranked ! i = scoreProduct ?w ?r a"
    and j: "j < length ?ranked" "?ranked ! j = scoreProduct ?w ?r b"
    by (auto simp: in_set_conv_nth)
  have "i \<noteq> j"
  proof
    assume "i = j"
    with i j have "scoreProduct ?w ?r a = scoreProduct ?w ?r b" by simp
    then have "totalScore (scoreProduct ?w ?r a) = totalScore (scoreProduct ?w ?r b)"
      by (rule arg_cong)
    with sa sb less show False by simp
  qed
  moreover have "\<not> j < i"
  proof
    assume "j < i"
    with sorted i(1) have "?le (?ranked ! j) (?ranked ! i)"
      by (simp add: sorted_wrt_iff_nth_less)
    with i j sa sb less show False by simp
  qed
  ultimately have "i < j" by simp
  with i j show ?thesis by blast
qed

subsection \<open>Dominance\<close>

lemma dominance_example_metrics:
  "calculateMetrics dominanceRates exampleDraws [productB, productA, productC] 1200 2
     = [analyzedB, analyzedA, analyzedC]"
  by (simp add: calculateMetrics_def getLatestRate_def dominanceRates_def observation_def
      productA_def productB_def productC_def exampleProduct_def exampleDraws_def
      analyzedA_def analyzedB_def analyzedC_def)

lemma dominance_example_eligible:
  "getEligibleProducts [productB, productA, productC] ''Mortgage'' 1200 2 700
     = [productB, productA, productC]"
  by (simp add: getEligibleProducts_def eligible_def or_default_def js_truthy_def
      MAX_SAFE_INTEGER_def productA_def productB_def productC_def exampleProduct_def)

lemma analyzedB_fields:
  "interestRate analyzedB = Fin 6"
  "is_finite (monthlyPayment analyzedB)"
  "customerService analyzedB = Fin 0.635"
  "flexibility analyzedB = Fin 0.5"
  "approvalLikelihood analyzedB = Fin 0.25"
  "product analyzedB = productB"
  by (simp_all add: analyzedB_def analyzeProduct_def observation_def monthlyPaymentOf_def
      assessCustomerService_def assessFlexibility_def productB_def exampleProduct_def
      assessApprovalLikelihood_def bound_num_def power2_eq_square)

lemma analyzedA_fields:
  "interestRate analyzedA = Fin 5"
  "is_finite (monthlyPayment analyzedA)"
  "customerService analyzedA = Fin 0.915"
  "flexibility analyzedA = Fin 0.7"
  "approvalLikelihood analyzedA = Fin 1"
  "product analyzedA = productA"
  by (simp_all add: analyzedA_def analyzeProduct_def observation_def monthlyPaymentOf_def
      assessCustomerService_def assessFlexibility_def productA_def exampleProduct_def
      assessApprovalLikelihood_def bound_num_def power2_eq_square)

lemma analyzedC_fields:
  "monthlyPayment analyzedC = NaN" "product analyzedC = productC"
  by (simp_all add: analyzedC_def analyzeProduct_def observation_def zero_rate_payment)

lemma payment_A_less_B: "js_less (monthlyPayment analyzedA) (monthlyPayment analyzedB)"
  by (simp add: analyzedA_def analyzedB_def analyzeProduct_def observation_def
      monthlyPaymentOf_def power2_eq_square)


lemma ranking_without_NaN:
  "map product (rankProducts [analyzedB, analyzedA] noPreferences) = [productA, productB]"
proof -
  obtain pa pb where pay: "monthlyPayment analyzedA = Fin pa" "monthlyPayment analyzedB = Fin pb"
    using analyzedA_fields(2) analyzedB_fields(2) by (auto simp: is_finite_iff)
  with payment_A_less_B have "pa < pb" by simp
  have fin: "\<forall>p\<in>set [analyzedB, analyzedA]. finiteMetrics p"
    by (simp add: finiteMetrics_def analyzedA_fields analyzedB_fields)
  from dominance_ranking [OF fin, of analyzedA analyzedB noPreferences] \<open>pa < pb\<close>
  obtain i j where ij: "i < j" "j < length (rankProducts [analyzedB, analyzedA] noPreferences)"
    and at: "rankProducts [analyzedB, analyzedA] noPreferences ! i
               = scoreProduct (normalizedWeights noPreferences)
                   (findRanges [analyzedB, analyzedA]) analyzedA"
            "rankProducts [analyzedB, analyzedA] noPreferences ! j
               = scoreProduct (normalizedWeights noPreferences)
                   (findRanges [analyzedB, analyzedA]) analyzedB"
    by (auto simp: pay analyzedA_fields analyzedB_fields)
  have len: "length (rankProducts [analyzedB, analyzedA] noPreferences) = 2"
    by (simp add: length_rankProducts)
  with ij have "i = 0" "j = 1" by auto
  with at len show ?thesis
    by (auto simp: list_eq_iff_nth_eq nth_Cons' analyzedA_fields analyzedB_fields
        less_Suc_eq numeral_2_eq_2)
qed

text \<open>
  Claim C7. The claim says that a candidate that dominates another on every weighted
  metric has a total score at least as high and is ranked no lower. For numbers this
  holds (lemmas \<open>dominance_total_score\<close> and \<open>dominance_ranking\<close>), but \<open>rankProducts\<close>
  has no defence against a payment that is not a number. In the list B, A, C, where
  A is strictly better than B on all five metrics and C has rate 0 and so the payment
  \<open>NaN\<close>, the range of the payments is \<open>NaN\<close>, every total score is \<open>NaN\<close>, the
  comparator never orders two candidates, and the ranking is the input order: B stands
  above A, also in the options of the analysis of the three products. Without C the
  ranking is A, B.
\<close>

theorem nan_payment_breaks_ranking:
  "calculateMetrics dominanceRates exampleDraws [productB, productA, productC] 1200 2
     = [analyzedB, analyzedA, analyzedC]
   \<and> js_less (interestRate analyzedA) (interestRate analyzedB)
   \<and> js_less (monthlyPayment analyzedA) (monthlyPayment analyzedB)
   \<and> js_less (customerService analyzedB) (customerService analyzedA)
   \<and> js_less (flexibility analyzedB) (flexibility analyzedA)
   \<and> js_less (approvalLikelihood analyzedB) (approvalLikelihood analyzedA)
   \<and> monthlyPayment analyzedC = NaN
   \<and> map totalScore (rankProducts [analyzedB, analyzedA, analyzedC] noPreferences)
       = [NaN, NaN, NaN]
   \<and> map product (rankProducts [analyzedB, analyzedA, analyzedC] noPreferences)
       = [productB, productA, productC]
   \<and> map product (rankProducts [analyzedB, analyzedA] noPreferences) = [productA, productB]
   \<and> (\<exists>result.
         analyzeLoanOptions [productB, productA, productC] dominanceRates exampleDraws
           ''Mortgage'' 1200 2 None PreferencesAbsent = Inr result
         \<and> map product (allOptions result) = [productB, productA, productC])"
proof -
  have c: "analyzedC \<in> set [analyzedB, analyzedA, analyzedC]" by simp
  note ranked = NaN_payment_ranking(1) [OF c analyzedC_fields(1), of noPreferences]
  have totals: "map totalScore (rankProducts [analyzedB, analyzedA, analyzedC] noPreferences)
       = [NaN, NaN, NaN]"
    by (simp add: ranked NaN_payment_score [OF c analyzedC_fields(1)])
  have order: "map product (rankProducts [analyzedB, analyzedA, analyzedC] noPreferences)
       = [productB, productA, productC]"
    by (simp add: ranked analyzedA_fields analyzedB_fields analyzedC_fields)
  have "set (recommendedProducts (rankProducts [analyzedB, analyzedA, analyzedC] noPreferences))
      \<subseteq> set (rankProducts [analyzedB, analyzedA, analyzedC] noPreferences)"
    by (rule recommendedProducts_subset)
  then have "list_all hasInstitution
      (recommendedProducts (rankProducts [analyzedB, analyzedA, analyzedC] noPreferences))"
    by (auto simp: list_all_iff ranked hasInstitution_def analyzedA_fields analyzedB_fields
        analyzedC_fields productA_def productB_def productC_def exampleProduct_def)
  then obtain recs where
    "generateRecommendations (rankProducts [analyzedB, analyzedA, analyzedC] noPreferences)
       = Inr recs"
    using generateRecommendations_returns by blast
  then have "\<exists>result.
         analyzeLoanOptions [productB, productA, productC] dominanceRates exampleDraws
           ''Mortgage'' 1200 2 None PreferencesAbsent = Inr result
         \<and> allOptions result = rankProducts [analyzedB, analyzedA, analyzedC] noPreferences"
    by (simp add: analyzeLoanOptions_def Let_def dominance_example_eligible
        dominance_example_metrics rankProductsFor_def)
  then show ?thesis
    using dominance_example_metrics payment_A_less_B totals order ranking_without_NaN
    by (auto simp: analyzedA_fields analyzedB_fields analyzedC_fields)
qed

end
